theory Spec2Isabelle
  imports Main "HOL-Library.Sublist"
begin

section \<open>Strings and numbers of the host language\<close>

text \<open>
  The controller is JavaScript. A JavaScript string is a sequence of code units; the
  embedding takes the type \<open>string\<close> and reads a \<open>char\<close> as the code unit of the
  same number, so it covers the strings whose code units are below 256 (ASCII and the
  Latin-1 supplement). The three string operations the controller uses
  (\<^verbatim>\<open>trim\<close>, \<^verbatim>\<open>toLowerCase\<close>, \<^verbatim>\<open>includes\<close>) are written out for that range.
\<close>

definition isWhiteSpace :: "char \<Rightarrow> bool" where
  \<comment> \<open>the white space and line terminators that \<^verbatim>\<open>trim\<close> and \<^verbatim>\<open>parseInt\<close> strip: TAB, LF, VT, FF, CR, SP, NBSP\<close>
  "isWhiteSpace c = ((of_char c :: nat) \<in> set [9, 10, 11, 12, 13, 32, 160])"

definition trim :: "string \<Rightarrow> string" where
  "trim s = rev (dropWhile isWhiteSpace (rev (dropWhile isWhiteSpace s)))"

definition toLowerChar :: "char \<Rightarrow> char" where
  \<comment> \<open>A-Z and the capitals U+00C0 to U+00DE (the multiplication sign U+00D7 apart) move up by 32\<close>
  "toLowerChar c =
     (let n = (of_char c :: nat)
      in if (65 \<le> n \<and> n \<le> 90) \<or> (192 \<le> n \<and> n \<le> 222 \<and> n \<noteq> 215)
         then char_of (n + 32) else c)"

definition toLowerCase :: "string \<Rightarrow> string" where
  "toLowerCase s = map toLowerChar s"

fun startsWith :: "string \<Rightarrow> string \<Rightarrow> bool" where
  "startsWith s [] = True"
| "startsWith [] (k # ks) = False"
| "startsWith (c # cs) (k # ks) = (c = k \<and> startsWith cs ks)"

fun includesStr :: "string \<Rightarrow> string \<Rightarrow> bool" where
  \<comment> \<open>\<^verbatim>\<open>s.includes(k)\<close>: \<open>k\<close> occurs in \<open>s\<close> at some position\<close>
  "includesStr [] k = (k = [])"
| "includesStr (c # cs) k = (startsWith (c # cs) k \<or> includesStr cs k)"

definition orElse :: "string option \<Rightarrow> string \<Rightarrow> string" where
  \<comment> \<open>\<^verbatim>\<open>x || d\<close> for a field that is a string or absent: absent and the empty string are falsy\<close>
  "orElse x d = (case x of None \<Rightarrow> d | Some s \<Rightarrow> if s = [] then d else s)"

text \<open>
  A JavaScript number that comes out of \<^verbatim>\<open>parseInt\<close> is an integer or \<^verbatim>\<open>NaN\<close>. The
  integers are taken exactly; the embedding is that of the source for magnitudes up to
  \<open>2 ^ 53\<close>, beyond which the source rounds.
\<close>

datatype jsnum = NaN | Num int

definition isDigit :: "char \<Rightarrow> bool" where
  "isDigit c = (48 \<le> (of_char c :: nat) \<and> (of_char c :: nat) \<le> 57)"

definition digitVal :: "char \<Rightarrow> nat" where
  "digitVal c = of_char c - 48"

definition digitsValue :: "string \<Rightarrow> nat" where
  "digitsValue ds = foldl (\<lambda>a c. 10 * a + digitVal c) 0 ds"

definition parseInt :: "string \<Rightarrow> jsnum" where
  \<comment> \<open>\<^verbatim>\<open>parseInt(s, 10)\<close>: leading white space, an optional sign, then the longest run of digits\<close>
  "parseInt s =
     (let t = dropWhile isWhiteSpace s;
          neg = (t \<noteq> [] \<and> hd t = CHR ''-'');
          r = (if t \<noteq> [] \<and> (hd t = CHR ''-'' \<or> hd t = CHR ''+'') then tl t else t);
          ds = takeWhile isDigit r
      in if ds = [] then NaN
         else Num (if neg then - int (digitsValue ds) else int (digitsValue ds)))"

fun numAdd :: "jsnum \<Rightarrow> int \<Rightarrow> jsnum" where
  "numAdd NaN k = NaN"
| "numAdd (Num n) k = Num (n + k)"

fun numGe :: "jsnum \<Rightarrow> int \<Rightarrow> bool" where
  \<comment> \<open>every comparison with \<^verbatim>\<open>NaN\<close> is false\<close>
  "numGe NaN k = False"
| "numGe (Num n) k = (k \<le> n)"

fun numLess :: "jsnum \<Rightarrow> int \<Rightarrow> bool" where
  "numLess NaN k = False"
| "numLess (Num n) k = (n < k)"

fun numIs :: "jsnum \<Rightarrow> int \<Rightarrow> bool" where
  "numIs NaN k = False"
| "numIs (Num n) k = (n = k)"

fun digitsOf :: "nat \<Rightarrow> string" where
  "digitsOf n = (if n < 10 then [char_of (48 + n)] else digitsOf (n div 10) @ [char_of (48 + n mod 10)])"

declare digitsOf.simps [simp del]

fun numToString :: "jsnum \<Rightarrow> string" where
  \<comment> \<open>the text a template literal gives a number\<close>
  "numToString NaN = ''NaN''"
| "numToString (Num n) = (if n < 0 then CHR ''-'' # digitsOf (nat (- n)) else digitsOf (nat n))"


section \<open>Requests, responses and the Call Record store\<close>

text \<open>
  One record stands for the request object of every route: the body fields the provider
  posts and the one query parameter the controller reads. A field that the handlers test
  for absence is an option. \<open>CallSid\<close> and \<open>CallStatus\<close> are taken as present.
\<close>

record req =
  phoneNumber :: "string option"
  CallSid :: string
  SpeechResult :: "string option"
  CallStatus :: string
  To :: "string option"
  AnsweredBy :: "string option"
  CallDuration :: "string option"
  queryRetryCount :: "string option"

datatype verb =
    Say string
  | Hangup
  | Redirect string
  | Gather string string string string string
    \<comment> \<open>input, action, speechTimeout, language, and the message said inside\<close>

datatype jval = JStr string | JBool bool

datatype body = Xml "verb list" | Text string | Json "(string \<times> jval) list"

record httpResponse =
  statusCode :: nat
  body :: body

text \<open>The call log document (models/callLog): the timestamp and the notification flag are left out.\<close>

record callLog =
  status :: string
  patientPhoneNumber :: string
  patientResponse :: "string option"
  adherenceStatus :: string
  recordingUrl :: "string option"

type_synonym store = "string \<rightharpoonup> callLog"

datatype logEntry =
    Logger string string "(string \<times> string) list"
    \<comment> \<open>the structured logger: level, event, and the fields of the entry the embedding keeps\<close>
  | Console string

datatype serviceCall =
    MakeCall "string option"
  | SendSms "string option" string
  | GetRecordingUrl string

datatype gatewayRequest =
    CallsCreate string
  | MessagesCreate string string
  | RecordingsList string

text \<open>
  What a handler leaves behind besides its response: the store, the calls it made to the
  telephony service module, the requests that reached the provider, and the log.
\<close>

record run =
  db :: store
  calls :: "serviceCall list"
  sent :: "gatewayRequest list"
  logs :: "logEntry list"

datatype storeOp = CreateCallLog | UpdateAnswered | UpdateStatus | UpdateSmsSent | UpdateRecordingUrl

datatype faultPoint = AtSay | AtLog | AtHangup | AtSend

text \<open>
  The collaborators are parameters. \<open>storeFails\<close> tells which store operation rejects;
  \<open>callsCreate\<close>, \<open>messagesCreate\<close> and \<open>recordingsList\<close> are the provider's answers
  (\<open>Inl\<close> or \<open>Some\<close>: the message of the error it throws); \<open>replyFault\<close> is the place, if any,
  where building the adherence reply throws, and \<open>fallbackFault\<close> whether building the
  generic reply throws as well.
\<close>

record env =
  webhookUrl :: string
  storeFails :: "storeOp \<Rightarrow> bool"
  callsCreate :: "string \<Rightarrow> string + string \<times> string"
  messagesCreate :: "string \<Rightarrow> string \<Rightarrow> string option"
  recordingsList :: "string \<Rightarrow> string + string list"
  replyFault :: "faultPoint option"
  fallbackFault :: bool

definition logIt :: "logEntry \<Rightarrow> run \<Rightarrow> run" where
  "logIt l r = r\<lparr>logs := logs r @ [l]\<rparr>"

definition called :: "serviceCall \<Rightarrow> run \<Rightarrow> run" where
  "called c r = r\<lparr>calls := calls r @ [c]\<rparr>"

definition emit :: "gatewayRequest \<Rightarrow> run \<Rightarrow> run" where
  "emit q r = r\<lparr>sent := sent r @ [q]\<rparr>"

definition findOneAndUpdate :: "string \<Rightarrow> (callLog \<Rightarrow> callLog) \<Rightarrow> store \<Rightarrow> store" where
  \<comment> \<open>no upsert: a call identifier without a document changes nothing\<close>
  "findOneAndUpdate sid f st = (case st sid of None \<Rightarrow> st | Some d \<Rightarrow> st(sid \<mapsto> f d))"

definition tryUpdate :: "env \<Rightarrow> storeOp \<Rightarrow> string \<Rightarrow> (callLog \<Rightarrow> callLog) \<Rightarrow> logEntry \<Rightarrow> run \<Rightarrow> run" where
  \<comment> \<open>\<^verbatim>\<open>try { await CallLog.findOneAndUpdate(...) } catch (dbError) { log }\<close>\<close>
  "tryUpdate e opn sid f onFail r =
     (if storeFails e opn then logIt onFail r
      else r\<lparr>db := findOneAndUpdate sid f (db r)\<rparr>)"

definition tryCreate :: "env \<Rightarrow> string \<Rightarrow> string \<Rightarrow> logEntry \<Rightarrow> run \<Rightarrow> run" where
  \<comment> \<open>\<^verbatim>\<open>CallLog.create\<close> with the schema's defaults; the unique index rejects a second document of a call\<close>
  "tryCreate e sid phone onFail r =
     (if storeFails e CreateCallLog \<or> db r sid \<noteq> None then logIt onFail r
      else r\<lparr>db := (db r)(sid \<mapsto>
             \<lparr>status = ''Initiated'', patientPhoneNumber = phone, patientResponse = None,
              adherenceStatus = ''Unknown'', recordingUrl = None\<rparr>)\<rparr>)"

section \<open>The telephony service (services/twilioService)\<close>

definition isE164 :: "string \<Rightarrow> bool" where
  \<comment> \<open>the regular expression \<^verbatim>\<open>/^\+[1-9]\d{1,14}$/\<close>\<close>
  "isE164 s =
     (case s of
        p # d # ds \<Rightarrow>
          p = CHR ''+'' \<and> isDigit d \<and> d \<noteq> CHR ''0'' \<and>
          1 \<le> length ds \<and> length ds \<le> 14 \<and> list_all isDigit ds
      | _ \<Rightarrow> False)"

definition validNumber :: "string option \<Rightarrow> bool" where
  \<comment> \<open>the negation of \<^verbatim>\<open>!phoneNumber || !phoneNumber.match(...)\<close>\<close>
  "validNumber p = (case p of None \<Rightarrow> False | Some s \<Rightarrow> s \<noteq> [] \<and> isE164 s)"

datatype exn = AppError string string | Error string
  \<comment> \<open>\<open>AppError message type\<close>, and a plain error with its message\<close>

fun exnMessage :: "exn \<Rightarrow> string" where
  "exnMessage (AppError m t) = m"
| "exnMessage (Error m) = m"

definition makeCall :: "env \<Rightarrow> string option \<Rightarrow> run \<Rightarrow> (exn + string \<times> string) \<times> run" where
  "makeCall e p r0 =
     (let r1 = called (MakeCall p) r0
      in if \<not> validNumber p
         then (Inl (Error ''Invalid phone number format. Must be in E.164 format.''),
               logIt (Console ''Error making call:'') r1)
         else (let r2 = emit (CallsCreate (the p)) r1
               in case callsCreate e (the p) of
                    Inl m \<Rightarrow> (Inl (Error m), logIt (Console ''Error making call:'') r2)
                  | Inr c \<Rightarrow> (Inr c, r2)))"

definition sendSms :: "env \<Rightarrow> string option \<Rightarrow> string \<Rightarrow> run \<Rightarrow> exn option \<times> run" where
  \<comment> \<open>\<open>Some\<close>: the error that \<^verbatim>\<open>sendSms\<close> throws\<close>
  "sendSms e p message r0 =
     (let r1 = called (SendSms p message) r0
      in if \<not> validNumber p
         then (Some (Error ''Invalid phone number format. Must be in E.164 format.''),
               logIt (Console ''Error sending SMS:'') r1)
         else if message = [] \<or> trim message = []
         then (Some (Error ''Message cannot be empty.''), logIt (Console ''Error sending SMS:'') r1)
         else (let r2 = emit (MessagesCreate (the p) message) r1
               in case messagesCreate e (the p) message of
                    Some m \<Rightarrow> (Some (Error m), logIt (Console ''Error sending SMS:'') r2)
                  | None \<Rightarrow> (None, r2)))"

definition generateTwiml :: "env \<Rightarrow> string \<Rightarrow> jsnum \<Rightarrow> verb list" where
  \<comment> \<open>the document is the same when it is built by the library and when the catch branch writes it\<close>
  "generateTwiml e message nextRetryCount =
     [Gather ''speech'' (webhookUrl e @ ''/api/twilio/gather'') ''auto'' ''en-US'' message,
      Redirect (webhookUrl e @ ''/api/twilio/voice?retryCount='' @ numToString nextRetryCount)]"

definition getRecordingUrl :: "env \<Rightarrow> string \<Rightarrow> run \<Rightarrow> string option \<times> run" where
  "getRecordingUrl e sid r0 =
     (let r1 = emit (RecordingsList sid) (called (GetRecordingUrl sid) r0)
      in case recordingsList e sid of
           Inl m \<Rightarrow> (None, logIt (Console ''Error getting recording URL:'') r1)
         | Inr uris \<Rightarrow> (if uris = [] then None else Some (hd uris), r1))"

section \<open>The error middleware (middleware/errorHandler)\<close>

definition ErrorStatusCodes :: "string \<rightharpoonup> nat" where
  "ErrorStatusCodes = map_of
     [(''VALIDATION_ERROR'', 400), (''DATABASE_ERROR'', 500), (''TWILIO_ERROR'', 502),
      (''AUTHENTICATION_ERROR'', 401), (''AUTHORIZATION_ERROR'', 403),
      (''NOT_FOUND_ERROR'', 404), (''INTERNAL_ERROR'', 500)]"

fun exnStatusCode :: "exn \<Rightarrow> nat" where
  \<comment> \<open>the \<^verbatim>\<open>statusCode\<close> the \<^verbatim>\<open>AppError\<close> constructor sets; any other error is wrapped as an internal one\<close>
  "exnStatusCode (AppError m t) = (case ErrorStatusCodes t of Some c \<Rightarrow> c | None \<Rightarrow> 500)"
| "exnStatusCode (Error m) = 500"

section \<open>The call controller (controllers/callController)\<close>

definition MEDICATION_REMINDER_MESSAGE :: string where
  "MEDICATION_REMINDER_MESSAGE = ''Hello, this is a reminder from your healthcare provider to confirm your medications for the day. Please confirm if you have taken your Aspirin, Cardivol, and Metformin today.''"

definition VOICEMAIL_MESSAGE :: string where
  "VOICEMAIL_MESSAGE = ''We called to check on your medication but couldn't reach you. Please call us back or take your medications if you haven't done so.''"

definition POSITIVE_RESPONSE_MESSAGE :: string where
  "POSITIVE_RESPONSE_MESSAGE = ''Thank you for confirming you've taken your medications. Have a nice day.''"

definition NEGATIVE_RESPONSE_MESSAGE :: string where
  "NEGATIVE_RESPONSE_MESSAGE = ''Thank you for letting us know. Please take your medications as prescribed. Your health provider will be notified about this. Have a nice day.''"

definition PARTIAL_RESPONSE_MESSAGE :: string where
  "PARTIAL_RESPONSE_MESSAGE = ''Thank you for your response. I've noted that you've taken some but not all of your medications. Please remember to take all your prescribed medications. Your health provider will be notified. Have a nice day.''"

definition UNCLEAR_RESPONSE_MESSAGE :: string where
  "UNCLEAR_RESPONSE_MESSAGE = ''Thank you for your response. If you haven't taken all your medications yet, please do so as prescribed. Have a nice day.''"

definition REASK_MESSAGE :: string where
  \<comment> \<open>the literal of \<^verbatim>\<open>handleVoiceCall\<close> for a retry count other than 0\<close>
  "REASK_MESSAGE = ''I'm sorry, I didn't catch that. Could you please repeat if you've taken your medications today?''"

definition CLOSING_MESSAGE :: string where
  \<comment> \<open>the literal of \<^verbatim>\<open>handleVoiceCall\<close> once the retries are used up\<close>
  "CLOSING_MESSAGE = ''We haven't received a clear response. Your healthcare provider will be notified. Please remember to take your medications as prescribed. Thank you and have a nice day.''"

definition GENERIC_REPLY_MESSAGE :: string where
  \<comment> \<open>the literal of the catch branch of \<^verbatim>\<open>handleGather\<close>\<close>
  "GENERIC_REPLY_MESSAGE = ''Thank you for your response. Have a nice day.''"

subsection \<open>initiateCall\<close>

definition tryInitiate :: "env \<Rightarrow> req \<Rightarrow> run \<Rightarrow> (exn + httpResponse) \<times> run" where
  \<comment> \<open>the body of the \<^verbatim>\<open>try\<close>: \<open>Inl\<close> is the error thrown\<close>
  "tryInitiate e rq r0 =
     (case phoneNumber rq of
        None \<Rightarrow> (Inl (AppError ''Phone number is required'' ''VALIDATION_ERROR''), r0)
      | Some p \<Rightarrow>
          if p = [] then (Inl (AppError ''Phone number is required'' ''VALIDATION_ERROR''), r0)
          else if \<not> isE164 p
          then (Inl (AppError ''Phone number must be in E.164 format (e.g., +12345678900)''
                      ''VALIDATION_ERROR''), r0)
          else (case makeCall e (Some p) r0 of
                  (Inl err, r1) \<Rightarrow> (Inl err, r1)
                | (Inr (sid, st), r1) \<Rightarrow>
                    (let r2 = logIt (Logger ''INFO'' ''call_initiated''
                                [(''phoneNumber'', p), (''callSid'', sid), (''status'', st)]) r1;
                         r3 = tryCreate e sid p
                                (Logger ''WARN'' ''database_error'' [(''callSid'', sid)]) r2
                     in (Inr \<lparr>statusCode = 200,
                              body = Json [(''success'', JBool True),
                                           (''message'', JStr ''Call initiated successfully''),
                                           (''callSid'', JStr sid), (''status'', JStr st)]\<rparr>, r3))))"

definition initiateCall :: "env \<Rightarrow> req \<Rightarrow> run \<Rightarrow> httpResponse \<times> run" where
  "initiateCall e rq r0 =
     (case tryInitiate e rq r0 of
        (Inl err, r1) \<Rightarrow>
          (\<lparr>statusCode = 500,
            body = Json [(''error'', JStr ''Failed to initiate call''),
                         (''details'', JStr (exnMessage err))]\<rparr>,
           logIt (Console ''Error initiating call:'') r1)
      | (Inr resp, r1) \<Rightarrow> (resp, r1))"

subsection \<open>handleVoiceCall\<close>

definition handleVoiceCall :: "env \<Rightarrow> req \<Rightarrow> run \<Rightarrow> httpResponse \<times> run" where
  "handleVoiceCall e rq r0 =
     (let retryCount = parseInt (orElse (queryRetryCount rq) ''0'')
      in if numGe retryCount 2
         then (\<lparr>statusCode = 200, body = Xml [Say CLOSING_MESSAGE, Hangup]\<rparr>,
               logIt (Logger ''INFO'' ''max_retries_reached''
                        [(''callSid'', CallSid rq), (''retryCount'', numToString retryCount)]) r0)
         else (let message = (if numIs retryCount 0 then MEDICATION_REMINDER_MESSAGE
                              else REASK_MESSAGE);
                   twiml = generateTwiml e message (numAdd retryCount 1)
               in (\<lparr>statusCode = 200, body = Xml twiml\<rparr>,
                   logIt (Logger ''INFO'' ''voice_call_handling''
                            [(''callSid'', CallSid rq), (''retryCount'', numToString retryCount)]) r0)))"

subsection \<open>handleGather\<close>

definition positiveKeywords :: "string list" where
  "positiveKeywords =
     [''yes'', ''yeah'', ''yep'', ''yup'', ''taken'', ''did'', ''have'', ''already'', ''completed'']"

definition negativeKeywords :: "string list" where
  "negativeKeywords =
     [''no'', ''not'', ''haven't'', ''didn't'', ''don't'', ''forgot'', ''later'', ''missed'']"

definition medicationKeywords :: "string list" where
  "medicationKeywords =
     [''medication'', ''medicine'', ''pill'', ''drug'', ''tablet'', ''aspirin'', ''cardivol'',
      ''metformin'']"

definition classify :: "string \<Rightarrow> string \<times> string \<times> string option" where
  \<comment> \<open>the classification inside \<^verbatim>\<open>handleGather\<close>: the reply to say, the adherence status,
      and the note of the log entry\<close>
  "classify transcript =
     (let responseLower = toLowerCase transcript;
          hasMedicationContext = list_ex (\<lambda>keyword. includesStr responseLower keyword) medicationKeywords;
          isPositive = list_ex (\<lambda>keyword. includesStr responseLower keyword) positiveKeywords;
          isNegative = list_ex (\<lambda>keyword. includesStr responseLower keyword) negativeKeywords
      in if isNegative \<and> \<not> isPositive then (NEGATIVE_RESPONSE_MESSAGE, ''None'', None)
         else if isPositive \<and> \<not> isNegative then (POSITIVE_RESPONSE_MESSAGE, ''Full'', None)
         else if isPositive \<and> isNegative then (PARTIAL_RESPONSE_MESSAGE, ''Partial'', None)
         else if \<not> hasMedicationContext
         then (UNCLEAR_RESPONSE_MESSAGE, ''Unclear'', Some ''Response not about medications'')
         else (UNCLEAR_RESPONSE_MESSAGE, ''Unclear'', None))"

definition adherenceReply :: "env \<Rightarrow> string \<Rightarrow> string \<Rightarrow> run \<Rightarrow> httpResponse option \<times> run" where
  \<comment> \<open>the inner \<^verbatim>\<open>try\<close>: say the reply, log the analysis, hang up, send. \<open>None\<close>: it threw\<close>
  "adherenceReply e callSid transcript r0 =
     (case classify transcript of
        (message, verdict, note) \<Rightarrow>
          if replyFault e = Some AtSay \<or> replyFault e = Some AtLog then (None, r0)
          else (let r1 = logIt (Logger ''INFO'' ''adherence_analysis''
                           ([(''callSid'', callSid), (''adherenceStatus'', verdict),
                             (''patientResponse'', transcript)]
                            @ (case note of None \<Rightarrow> [] | Some n \<Rightarrow> [(''note'', n)]))) r0
                in if replyFault e = Some AtHangup \<or> replyFault e = Some AtSend then (None, r1)
                   else (Some \<lparr>statusCode = 200, body = Xml [Say message, Hangup]\<rparr>, r1)))"

definition handleGather :: "env \<Rightarrow> req \<Rightarrow> run \<Rightarrow> httpResponse \<times> run" where
  "handleGather e rq r0 =
     (let transcript = orElse (SpeechResult rq) [];
          callSid = CallSid rq
      in if transcript = [] \<or> trim transcript = []
         then (let currentRetryCount = parseInt (orElse (queryRetryCount rq) ''0'')
               in (\<lparr>statusCode = 200,
                     body = Xml [Redirect (webhookUrl e @ ''/api/twilio/voice?retryCount=''
                                             @ numToString (numAdd currentRetryCount 1))]\<rparr>,
                   logIt (Logger ''INFO'' ''no_speech_detected''
                            [(''callSid'', callSid),
                             (''retryCount'', numToString (numAdd currentRetryCount 1))]) r0))
         else (let r1 = logIt (Logger ''INFO'' ''response_received''
                           [(''callSid'', callSid), (''status'', ''Answered''),
                            (''patientResponse'', transcript)]) r0;
                   r2 = tryUpdate e UpdateAnswered callSid
                          (\<lambda>d. d\<lparr>status := ''Answered'', patientResponse := Some transcript\<rparr>)
                          (Logger ''WARN'' ''database_error'' [(''callSid'', callSid)]) r1
               in case adherenceReply e callSid transcript r2 of
                    (Some resp, r3) \<Rightarrow> (resp, r3)
                  | (None, r3) \<Rightarrow>
                      (let r4 = logIt (Console ''Error generating TwiML response:'') r3
                       in if fallbackFault e
                          then (\<lparr>statusCode = 500, body = Text ''Error processing response''\<rparr>,
                                logIt (Console ''Error handling gather:'') r4)
                          else (\<lparr>statusCode = 200,
                                 body = Xml [Say GENERIC_REPLY_MESSAGE, Hangup]\<rparr>, r4))))"

subsection \<open>handleStatusCallback\<close>

definition smsFallback :: "env \<Rightarrow> req \<Rightarrow> string \<Rightarrow> run \<Rightarrow> run" where
  \<comment> \<open>the block both fallback branches hold: announce, send, and on success mark the document\<close>
  "smsFallback e rq announce r0 =
     (case sendSms e (To rq) VOICEMAIL_MESSAGE (logIt (Console announce) r0) of
        (Some err, r1) \<Rightarrow> logIt (Console ''Error sending SMS fallback:'') r1
      | (None, r1) \<Rightarrow>
          tryUpdate e UpdateSmsSent (CallSid rq) (\<lambda>d. d\<lparr>status := ''SMS Sent''\<rparr>)
            (Console ''Warning: Failed to update SMS status in database'')
            (logIt (Console ''SMS sent as fallback'') r1))"

definition fetchRecording :: "env \<Rightarrow> req \<Rightarrow> run \<Rightarrow> run" where
  \<comment> \<open>the recording block of a completed call\<close>
  "fetchRecording e rq r0 =
     (case getRecordingUrl e (CallSid rq) r0 of
        (None, r1) \<Rightarrow> r1
      | (Some url, r1) \<Rightarrow>
          if url = [] then r1
          else tryUpdate e UpdateRecordingUrl (CallSid rq) (\<lambda>d. d\<lparr>recordingUrl := Some url\<rparr>)
                 (Console ''Warning: Failed to update recording URL in database'')
                 (logIt (Console ''Recording URL'') r1))"

definition fallbackDispatch :: "env \<Rightarrow> req \<Rightarrow> run \<Rightarrow> run" where
  \<comment> \<open>the block that decides on the SMS fallback, for an unanswered or a short call\<close>
  "fallbackDispatch e rq r2 =
     (if CallStatus rq \<in> set [''no-answer'', ''busy'', ''failed'', ''canceled'', ''completed'']
      then (let answeredByHuman = (AnsweredBy rq = Some ''human'');
                callDuration = parseInt (orElse (CallDuration rq) ''0'')
            in if CallStatus rq = ''completed'' \<and> (\<not> answeredByHuman \<or> numLess callDuration 5)
               then smsFallback e rq ''completed but likely voicemail or disconnected quickly'' r2
               else if CallStatus rq \<noteq> ''completed''
               then smsFallback e rq ''sending SMS fallback'' r2
               else r2)
      else r2)"

definition handleStatusCallback :: "env \<Rightarrow> req \<Rightarrow> run \<Rightarrow> httpResponse \<times> run" where
  "handleStatusCallback e rq r0 =
     (let r1 = logIt (Logger ''INFO'' ''call_status_update''
                 [(''callSid'', CallSid rq), (''status'', CallStatus rq)]) r0;
          r2 = tryUpdate e UpdateStatus (CallSid rq) (\<lambda>d. d\<lparr>status := CallStatus rq\<rparr>)
                 (Logger ''WARN'' ''database_error'' [(''callSid'', CallSid rq)]) r1;
          r3 = fallbackDispatch e rq r2;
          r4 = (if CallStatus rq = ''completed'' then fetchRecording e rq r3 else r3)
      in (\<lparr>statusCode = 200, body = Text ''Status received''\<rparr>, r4))"

section \<open>Notions of the specification, and sample values\<close>

definition adherenceOf :: "string \<Rightarrow> string" where
  \<comment> \<open>the adherence status the classification assigns\<close>
  "adherenceOf t = fst (snd (classify t))"

definition replyOf :: "string \<Rightarrow> string" where
  \<comment> \<open>the reply the classification says\<close>
  "replyOf t = fst (classify t)"

definition occursIn :: "string \<Rightarrow> string \<Rightarrow> bool" where
  \<comment> \<open>the specification's matching: some contiguous part of the transcript is the keyword, letter case apart\<close>
  "occursIn k t = (\<exists>u. sublist u t \<and> toLowerCase u = k)"

definition matchesAny :: "string list \<Rightarrow> string \<Rightarrow> bool" where
  "matchesAny ks t = (\<exists>k \<in> set ks. occursIn k t)"

definition specE164 :: "string \<Rightarrow> bool" where
  \<comment> \<open>the specification's E.164: a plus sign, then 1 to 15 digits of which the first is 1 to 9\<close>
  "specE164 s =
     (case s of
        p # d # ds \<Rightarrow> p = CHR ''+'' \<and> isDigit d \<and> d \<noteq> CHR ''0'' \<and> length ds \<le> 14 \<and> list_all isDigit ds
      | _ \<Rightarrow> False)"

definition blank :: "req \<Rightarrow> bool" where
  \<comment> \<open>the transcript of a gather event is absent, empty or white space only\<close>
  "blank rq = (trim (orElse (SpeechResult rq) []) = [])"

definition fallbackDue :: "req \<Rightarrow> bool" where
  \<comment> \<open>the specification's condition for the fallback dispatch\<close>
  "fallbackDue rq =
     (CallStatus rq \<in> {''no-answer'', ''busy'', ''failed'', ''canceled''} \<or>
      (CallStatus rq = ''completed'' \<and>
        (AnsweredBy rq \<noteq> Some ''human'' \<or>
         (\<exists>n. parseInt (orElse (CallDuration rq) ''0'') = Num n \<and> n < 5))))"

text \<open>
  Sample collaborators, as the unit test mocks them: every provider request succeeds, the
  store accepts every operation, and no reply throws.
\<close>

definition mockEnv :: env where
  "mockEnv =
     \<lparr>webhookUrl = ''http://localhost:3000'',
      storeFails = (\<lambda>opn. False),
      callsCreate = (\<lambda>p. Inr (''test-call-sid'', ''queued'')),
      messagesCreate = (\<lambda>p m. None),
      recordingsList = (\<lambda>sid. Inr [''https://api.twilio.com/recordings/test-recording-sid'']),
      replyFault = None,
      fallbackFault = False\<rparr>"

definition emptyRun :: run where
  "emptyRun = \<lparr>db = Map.empty, calls = [], sent = [], logs = []\<rparr>"

definition blankReq :: req where
  "blankReq =
     \<lparr>phoneNumber = None, CallSid = ''test-call-sid'', SpeechResult = None, CallStatus = [],
      To = None, AnsweredBy = None, CallDuration = None, queryRetryCount = None\<rparr>"

definition initiatedRun :: run where
  \<comment> \<open>the run after a call to +12345678900 was initiated\<close>
  "initiatedRun = snd (initiateCall mockEnv (blankReq\<lparr>phoneNumber := Some ''+12345678900''\<rparr>) emptyRun)"

definition delivered :: "env \<Rightarrow> req \<Rightarrow> bool" where
  \<comment> \<open>the fallback dispatch succeeds: the destination passes the check and the provider accepts the message\<close>
  "delivered e rq =
     (validNumber (To rq) \<and> messagesCreate e (the (To rq)) VOICEMAIL_MESSAGE = None)"

definition recordingOf :: "env \<Rightarrow> req \<Rightarrow> string option" where
  \<comment> \<open>the recording URL the handler gets to store, if any\<close>
  "recordingOf e rq =
     (case recordingsList e (CallSid rq) of
        Inl m \<Rightarrow> None
      | Inr uris \<Rightarrow> if uris = [] \<or> hd uris = [] then None else Some (hd uris))"

definition statusStore :: "env \<Rightarrow> req \<Rightarrow> store \<Rightarrow> store" where
  \<comment> \<open>what one status callback does to the store, as one function of the store\<close>
  "statusStore e rq st =
     (let s1 = (if storeFails e UpdateStatus then st
                else findOneAndUpdate (CallSid rq) (\<lambda>d. d\<lparr>status := CallStatus rq\<rparr>) st);
          s2 = (if fallbackDue rq \<and> delivered e rq \<and> \<not> storeFails e UpdateSmsSent
                then findOneAndUpdate (CallSid rq) (\<lambda>d. d\<lparr>status := ''SMS Sent''\<rparr>) s1 else s1)
      in case recordingOf e rq of
           None \<Rightarrow> s2
         | Some url \<Rightarrow>
             if CallStatus rq = ''completed'' \<and> \<not> storeFails e UpdateRecordingUrl
             then findOneAndUpdate (CallSid rq) (\<lambda>d. d\<lparr>recordingUrl := Some url\<rparr>) s2 else s2)"

definition voicemailEvent :: req where
  \<comment> \<open>a completed call that the provider does not report as answered by a person\<close>
  "voicemailEvent = blankReq\<lparr>CallStatus := ''completed'', To := Some ''+12345678900''\<rparr>"

definition humanEvent :: req where
  \<comment> \<open>a completed call answered by a person that lasted 10 seconds\<close>
  "humanEvent = voicemailEvent\<lparr>AnsweredBy := Some ''human'', CallDuration := Some ''10''\<rparr>"

fun gatherActions :: "verb list \<Rightarrow> string list" where
  \<comment> \<open>the action URLs of the gather directives of a document\<close>
  "gatherActions [] = []"
| "gatherActions (Gather i a s l m # vs) = a # gatherActions vs"
| "gatherActions (v # vs) = gatherActions vs"

section \<open>Strings and numbers: facts\<close>

lemma startsWith_prefix: "startsWith s k = prefix k s"
  by (induction s k rule: startsWith.induct) auto

lemma includesStr_sublist: "includesStr s k = sublist k s"
  by (induction s) (auto simp: startsWith_prefix sublist_Cons_right)

lemma sublist_map_iff: "sublist k (map f t) \<longleftrightarrow> (\<exists>u. sublist u t \<and> map f u = k)"
proof
  assume "sublist k (map f t)"
  then obtain ps ss where "map f t = ps @ k @ ss" by (auto simp: sublist_def)
  then obtain a r where 1: "t = a @ r" "k @ ss = map f r"
    unfolding map_eq_append_conv by blast
  then obtain b c where 2: "r = b @ c" "k = map f b"
    unfolding append_eq_map_conv by blast
  have "t = a @ b @ c" "map f b = k" using 1 2 by simp_all
  then show "\<exists>u. sublist u t \<and> map f u = k" by (auto simp: sublist_def)
next
  assume "\<exists>u. sublist u t \<and> map f u = k"
  then obtain u ps ss where "t = ps @ u @ ss" "map f u = k" by (auto simp: sublist_def)
  then have "map f t = map f ps @ k @ map f ss" by simp
  then show "sublist k (map f t)" unfolding sublist_def by blast
qed

lemma occursIn_includesStr: "occursIn k t = includesStr (toLowerCase t) k"
  by (simp add: occursIn_def includesStr_sublist toLowerCase_def sublist_map_iff)

lemma matchesAny_list_ex: "matchesAny ks t = list_ex (\<lambda>k. includesStr (toLowerCase t) k) ks"
  by (simp add: matchesAny_def occursIn_includesStr list_ex_iff)

text \<open>Evaluating \<open>toLowerCase\<close> on a literal, character by character.\<close>

lemma toLowerCase_simps:
  "toLowerCase [] = []" "toLowerCase (c # cs) = toLowerChar c # toLowerCase cs"
  by (simp_all add: toLowerCase_def)

lemma toLowerChar_caps:
  "toLowerChar CHR ''N'' = CHR ''n''" "toLowerChar CHR ''I'' = CHR ''i''"
  "toLowerChar CHR ''Y'' = CHR ''y''"
  by code_simp+

lemma toLowerChar_small:
  "97 \<le> (of_char c :: nat) \<Longrightarrow> of_char c \<le> (122::nat) \<Longrightarrow> toLowerChar c = c"
  "toLowerChar CHR '' '' = CHR '' ''" "toLowerChar CHR 0x27 = CHR 0x27"
  by (simp_all add: toLowerChar_def)

lemma isDigit_char_of: "(d::nat) < 10 \<Longrightarrow> isDigit (char_of (48 + d))"
  unfolding isDigit_def by (simp add: of_char_of take_bit_eq_mod)

lemma digitVal_char_of: "(d::nat) < 10 \<Longrightarrow> digitVal (char_of (48 + d)) = d"
  unfolding digitVal_def by (simp add: of_char_of take_bit_eq_mod)

lemma digitsOf_digits: "list_all isDigit (digitsOf n)"
  by (induction n rule: digitsOf.induct) (subst digitsOf.simps, simp add: isDigit_char_of)

lemma digitsOf_nonempty: "digitsOf n \<noteq> []"
  by (subst digitsOf.simps) simp

lemma digitsValue_snoc: "digitsValue (ds @ [c]) = 10 * digitsValue ds + digitVal c"
  by (simp add: digitsValue_def)

lemma digitsValue_digitsOf: "digitsValue (digitsOf n) = n"
proof (induction n rule: digitsOf.induct)
  case (1 n)
  show ?case
  proof (cases "n < 10")
    case True
    then show ?thesis by (subst digitsOf.simps) (simp add: digitsValue_def digitVal_char_of)
  next
    case False
    with 1 show ?thesis
      by (subst digitsOf.simps) (simp add: digitsValue_snoc digitVal_char_of)
  qed
qed

lemma isDigit_not_space: "isDigit c \<Longrightarrow> \<not> isWhiteSpace c"
  by (auto simp: isDigit_def isWhiteSpace_def)

lemma isDigit_not_sign: "isDigit c \<Longrightarrow> c \<noteq> CHR ''-'' \<and> c \<noteq> CHR ''+''"
  by (auto simp: isDigit_def)

lemma parseInt_digits:
  assumes "ds \<noteq> []" "list_all isDigit ds"
  shows "parseInt ds = Num (int (digitsValue ds))"
proof -
  obtain c cs where ds: "ds = c # cs" using assms(1) by (cases ds) auto
  have c: "isDigit c" using assms(2) ds by simp
  have 1: "dropWhile isWhiteSpace ds = ds" using c ds isDigit_not_space by simp
  have 2: "takeWhile isDigit ds = ds" using assms(2) by (simp add: list_all_iff)
  show ?thesis
    unfolding parseInt_def 1 using isDigit_not_sign[OF c] 2 assms(1) by (simp add: ds Let_def)
qed

text \<open>Reading back the decimal text of a natural number gives the number.\<close>

lemma parseInt_digitsOf: "parseInt (digitsOf n) = Num (int n)"
  by (simp add: parseInt_digits digitsOf_nonempty digitsOf_digits digitsValue_digitsOf)

lemma orElse_digitsOf: "orElse (Some (digitsOf n)) d = digitsOf n"
  by (simp add: orElse_def digitsOf_nonempty)

section \<open>The response classifier\<close>

lemma adherenceOf_cases:
  "adherenceOf t =
     (if matchesAny negativeKeywords t \<and> \<not> matchesAny positiveKeywords t then ''None''
      else if matchesAny positiveKeywords t \<and> \<not> matchesAny negativeKeywords t then ''Full''
      else if matchesAny positiveKeywords t \<and> matchesAny negativeKeywords t then ''Partial''
      else ''Unclear'')"
  by (simp add: adherenceOf_def classify_def matchesAny_list_ex Let_def)

text \<open>
  C1. Whatever the transcript, the classification gives exactly one of Full, Partial, None
  and Unclear, never Unknown, and follows the decision table over keyword matching by
  substring, letter case apart: a negative keyword and no positive one gives None; a
  positive keyword and no negative one gives Full; both give Partial; neither gives
  Unclear, with or without a medication keyword.
\<close>

theorem classify_decision_table:
  "adherenceOf t \<in> {''Full'', ''Partial'', ''None'', ''Unclear''} \<and>
   adherenceOf t \<noteq> ''Unknown'' \<and>
   (matchesAny negativeKeywords t \<and> \<not> matchesAny positiveKeywords t \<longrightarrow> adherenceOf t = ''None'') \<and>
   (matchesAny positiveKeywords t \<and> \<not> matchesAny negativeKeywords t \<longrightarrow> adherenceOf t = ''Full'') \<and>
   (matchesAny positiveKeywords t \<and> matchesAny negativeKeywords t \<longrightarrow> adherenceOf t = ''Partial'') \<and>
   (\<not> matchesAny positiveKeywords t \<and> \<not> matchesAny negativeKeywords t \<longrightarrow> adherenceOf t = ''Unclear'')"
  unfolding adherenceOf_cases by auto

theorem classify_decision_table_witness:
  "matchesAny negativeKeywords ''Nope'' \<and> \<not> matchesAny positiveKeywords ''Nope'' \<and>
   adherenceOf ''Nope'' = ''None'' \<and>
   matchesAny positiveKeywords ''yes I took my pills'' \<and>
   \<not> matchesAny negativeKeywords ''yes I took my pills'' \<and>
   adherenceOf ''yes I took my pills'' = ''Full'' \<and>
   matchesAny positiveKeywords ''I haven't'' \<and> matchesAny negativeKeywords ''I haven't'' \<and>
   adherenceOf ''I haven't'' = ''Partial'' \<and>
   \<not> matchesAny positiveKeywords ''my pills'' \<and> \<not> matchesAny negativeKeywords ''my pills'' \<and>
   adherenceOf ''my pills'' = ''Unclear''"
proof -
  note ev = matchesAny_list_ex negativeKeywords_def positiveKeywords_def
    toLowerCase_simps toLowerChar_caps toLowerChar_small
  have n: "matchesAny negativeKeywords ''Nope''" "\<not> matchesAny positiveKeywords ''Nope''"
    by (simp_all add: ev)
  have f: "matchesAny positiveKeywords ''yes I took my pills''"
    "\<not> matchesAny negativeKeywords ''yes I took my pills''"
    by (simp_all add: ev)
  have p: "matchesAny positiveKeywords ''I haven't''" "matchesAny negativeKeywords ''I haven't''"
    by (simp_all add: ev)
  have u: "\<not> matchesAny positiveKeywords ''my pills''" "\<not> matchesAny negativeKeywords ''my pills''"
    by (simp_all add: ev)
  have 1: "adherenceOf ''Nope'' = ''None''"
    using classify_decision_table [of "''Nope''"] n by (simp only: simp_thms)
  have 2: "adherenceOf ''yes I took my pills'' = ''Full''"
    using classify_decision_table [of "''yes I took my pills''"] f by (simp only: simp_thms)
  have 3: "adherenceOf ''I haven't'' = ''Partial''"
    using classify_decision_table [of "''I haven't''"] p by (simp only: simp_thms)
  have 4: "adherenceOf ''my pills'' = ''Unclear''"
    using classify_decision_table [of "''my pills''"] u by (simp only: simp_thms)
  show ?thesis
    using n f p u 1 2 3 4 by (intro conjI)
qed

section \<open>The retry policy: voice leg entry and empty gather results\<close>

lemma digitsOf_small:
  "digitsOf 0 = ''0''" "digitsOf 1 = ''1''" "digitsOf 2 = ''2''" "digitsOf 3 = ''3''"
  by code_simp+

lemma webhookUrl_mockEnv: "webhookUrl mockEnv = ''http://localhost:3000''"
  by (simp add: mockEnv_def)

lemma digitsOf_one_plus_one: "digitsOf (1 + 1) = ''2''"
  by code_simp

lemma digitsOf_Suc0: "digitsOf (Suc 0) = ''1''"
  by code_simp

lemma retryCount_absent: "parseInt (orElse None ''0'') = Num 0"
  using parseInt_digitsOf [of 0] by (simp add: orElse_def digitsOf_small)

lemma retryCount_given: "parseInt (orElse (Some (digitsOf n)) ''0'') = Num (int n)"
  by (simp add: orElse_digitsOf parseInt_digitsOf)

lemma retryCount_read:
  assumes "queryRetryCount rq = Some (digitsOf n) \<or> (queryRetryCount rq = None \<and> n = 0)"
  shows "parseInt (orElse (queryRetryCount rq) ''0'') = Num (int n)"
  using assms retryCount_absent retryCount_given by auto

text \<open>
  C4. The voice leg entry follows the retry policy for every retry count \<open>n\<close> given
  in decimal on the request (an absent parameter counts as 0): the check for the used-up
  retries comes first, and from 2 on the response is the closing message and a hang-up,
  the same for every such \<open>n\<close>, with no gather and no redirect; at 0 it is the full
  reminder with a redirect carrying 1; at 1 it is the short re-ask with a redirect
  carrying 2.
\<close>

theorem voice_leg_retry_policy:
  assumes "queryRetryCount rq = Some (digitsOf n) \<or> (queryRetryCount rq = None \<and> n = 0)"
  shows "fst (handleVoiceCall e rq r) =
     \<lparr>statusCode = 200,
      body = Xml
        (if 2 \<le> n then [Say CLOSING_MESSAGE, Hangup]
         else if n = 0
         then [Gather ''speech'' (webhookUrl e @ ''/api/twilio/gather'') ''auto'' ''en-US''
                 MEDICATION_REMINDER_MESSAGE,
               Redirect (webhookUrl e @ ''/api/twilio/voice?retryCount=1'')]
         else [Gather ''speech'' (webhookUrl e @ ''/api/twilio/gather'') ''auto'' ''en-US''
                 REASK_MESSAGE,
               Redirect (webhookUrl e @ ''/api/twilio/voice?retryCount=2'')])\<rparr>"
proof -
  have p: "parseInt (orElse (queryRetryCount rq) ''0'') = Num (int n)"
    using assms by (rule retryCount_read)
  consider "2 \<le> n" | "n = 0" | "n = 1" by linarith
  then show ?thesis
  proof cases
    case 1
    then show ?thesis by (simp add: handleVoiceCall_def p)
  next
    case 2
    then show ?thesis
      by (simp add: handleVoiceCall_def p generateTwiml_def digitsOf_small digitsOf_Suc0)
  next
    case 3
    then show ?thesis
      by (simp add: handleVoiceCall_def p generateTwiml_def digitsOf_small digitsOf_Suc0)
  qed
qed

theorem voice_leg_retry_policy_witness:
  "queryRetryCount (blankReq\<lparr>queryRetryCount := Some ''1''\<rparr>) = Some (digitsOf 1) \<and>
   fst (handleVoiceCall mockEnv (blankReq\<lparr>queryRetryCount := Some ''1''\<rparr>) emptyRun) =
     \<lparr>statusCode = 200,
      body = Xml [Gather ''speech'' ''http://localhost:3000/api/twilio/gather'' ''auto'' ''en-US''
                    REASK_MESSAGE,
                  Redirect ''http://localhost:3000/api/twilio/voice?retryCount=2'']\<rparr> \<and>
   queryRetryCount (blankReq\<lparr>queryRetryCount := Some ''3''\<rparr>) = Some (digitsOf 3) \<and>
   fst (handleVoiceCall mockEnv (blankReq\<lparr>queryRetryCount := Some ''3''\<rparr>) emptyRun) =
     \<lparr>statusCode = 200, body = Xml [Say CLOSING_MESSAGE, Hangup]\<rparr>"
proof -
  have a: "queryRetryCount (blankReq\<lparr>queryRetryCount := Some ''1''\<rparr>) = Some (digitsOf 1)"
    by (simp add: digitsOf_small digitsOf_Suc0)
  have b: "queryRetryCount (blankReq\<lparr>queryRetryCount := Some ''3''\<rparr>) = Some (digitsOf 3)"
    by (simp add: digitsOf_small)
  have 1: "fst (handleVoiceCall mockEnv (blankReq\<lparr>queryRetryCount := Some ''1''\<rparr>) emptyRun) =
     \<lparr>statusCode = 200,
      body = Xml [Gather ''speech'' ''http://localhost:3000/api/twilio/gather'' ''auto'' ''en-US''
                    REASK_MESSAGE,
                  Redirect ''http://localhost:3000/api/twilio/voice?retryCount=2'']\<rparr>"
    using voice_leg_retry_policy [OF disjI1 [OF a], of mockEnv emptyRun]
    by (simp add: webhookUrl_mockEnv)
  have 2: "fst (handleVoiceCall mockEnv (blankReq\<lparr>queryRetryCount := Some ''3''\<rparr>) emptyRun) =
     \<lparr>statusCode = 200, body = Xml [Say CLOSING_MESSAGE, Hangup]\<rparr>"
    using voice_leg_retry_policy [OF disjI1 [OF b], of mockEnv emptyRun]
    by simp
  show ?thesis using a b 1 2 by (intro conjI)
qed

lemma blank_iff: "blank rq \<longleftrightarrow> (orElse (SpeechResult rq) [] = [] \<or> trim (orElse (SpeechResult rq) []) = [])"
  by (auto simp: blank_def trim_def)

text \<open>
  C5. A gather result whose transcript is absent, empty or white space only gives a
  redirect to the voice leg entry carrying the retry count of the request plus one, and
  nothing else: the only log entry is \<^verbatim>\<open>no_speech_detected\<close>, so no adherence analysis
  is made and no reply is said, and the store is untouched. The retry count is given in
  decimal and is in the range where the source's numbers are exact.
\<close>

theorem empty_transcript_redirects:
  assumes "blank rq" and "queryRetryCount rq = Some (digitsOf n)" and "n < 2 ^ 53"
  shows "handleGather e rq r =
    (\<lparr>statusCode = 200,
      body = Xml [Redirect (webhookUrl e @ ''/api/twilio/voice?retryCount='' @ digitsOf (n + 1))]\<rparr>,
     r\<lparr>logs := logs r @ [Logger ''INFO'' ''no_speech_detected''
                            [(''callSid'', CallSid rq), (''retryCount'', digitsOf (n + 1))]]\<rparr>)"
proof -
  have b: "orElse (SpeechResult rq) [] = [] \<or> trim (orElse (SpeechResult rq) []) = []"
    using assms(1) by (simp add: blank_iff)
  have p: "parseInt (orElse (queryRetryCount rq) ''0'') = Num (int n)"
    using assms(2) by (simp add: retryCount_given)
  have s: "nat (int n + 1) = n + 1" by simp
  show ?thesis
    using b by (simp add: handleGather_def p logIt_def s)
qed


theorem empty_transcript_redirects_witness:
  "blank (blankReq\<lparr>SpeechResult := Some ''  '', queryRetryCount := Some ''1''\<rparr>) \<and>
   queryRetryCount (blankReq\<lparr>SpeechResult := Some ''  '', queryRetryCount := Some ''1''\<rparr>)
     = Some (digitsOf 1) \<and>
   (1::nat) < 2 ^ 53 \<and>
   fst (handleGather mockEnv (blankReq\<lparr>SpeechResult := Some ''  '', queryRetryCount := Some ''1''\<rparr>)
          emptyRun) =
     \<lparr>statusCode = 200,
      body = Xml [Redirect ''http://localhost:3000/api/twilio/voice?retryCount=2'']\<rparr>"
proof -
  let ?rq = "blankReq\<lparr>SpeechResult := Some ''  '', queryRetryCount := Some ''1''\<rparr>"
  have a: "blank ?rq"
    by (simp add: blank_def orElse_def trim_def isWhiteSpace_def)
  have b: "queryRetryCount ?rq = Some (digitsOf 1)"
    by (simp add: digitsOf_small digitsOf_Suc0)
  have c: "(1::nat) < 2 ^ 53" by simp
  have d: "fst (handleGather mockEnv ?rq emptyRun) =
     \<lparr>statusCode = 200,
      body = Xml [Redirect ''http://localhost:3000/api/twilio/voice?retryCount=2'']\<rparr>"
    by (simp only: empty_transcript_redirects [OF a b c] fst_conv webhookUrl_mockEnv
          digitsOf_one_plus_one append.simps)
  show ?thesis using a b c d by (intro conjI)
qed

text \<open>
  C10. The gather directive of a voice prompt has the action URL
  \<^verbatim>\<open>/api/twilio/gather\<close> under the webhook base, whatever the next retry count is: the
  count goes into the redirect only. A gather result that comes without the query
  parameter and with an empty transcript therefore redirects with retry count 1,
  whatever the earlier legs counted.
\<close>

theorem gather_action_drops_retry_count:
  "set (gatherActions (generateTwiml e message k)) = {webhookUrl e @ ''/api/twilio/gather''} \<and>
   (case body (fst (handleVoiceCall e rq0 r0)) of
      Xml vs \<Rightarrow> set (gatherActions vs) \<subseteq> {webhookUrl e @ ''/api/twilio/gather''}
    | _ \<Rightarrow> False) \<and>
   (blank rq \<and> queryRetryCount rq = None \<longrightarrow>
      fst (handleGather e rq r) =
        \<lparr>statusCode = 200,
         body = Xml [Redirect (webhookUrl e @ ''/api/twilio/voice?retryCount=1'')]\<rparr>)"
proof (intro conjI impI)
  show "set (gatherActions (generateTwiml e message k)) = {webhookUrl e @ ''/api/twilio/gather''}"
    by (simp add: generateTwiml_def)
  show "case body (fst (handleVoiceCall e rq0 r0)) of
      Xml vs \<Rightarrow> set (gatherActions vs) \<subseteq> {webhookUrl e @ ''/api/twilio/gather''}
    | _ \<Rightarrow> False"
    by (simp add: handleVoiceCall_def generateTwiml_def Let_def)
next
  assume a: "blank rq \<and> queryRetryCount rq = None"
  then have b: "orElse (SpeechResult rq) [] = [] \<or> trim (orElse (SpeechResult rq) []) = []"
    by (simp add: blank_iff)
  show "fst (handleGather e rq r) =
        \<lparr>statusCode = 200,
         body = Xml [Redirect (webhookUrl e @ ''/api/twilio/voice?retryCount=1'')]\<rparr>"
    using a b by (simp add: handleGather_def retryCount_absent digitsOf_small digitsOf_Suc0)
qed


theorem gather_action_drops_retry_count_witness:
  "blank blankReq \<and> queryRetryCount blankReq = None \<and>
   fst (handleGather mockEnv blankReq emptyRun) =
     \<lparr>statusCode = 200,
      body = Xml [Redirect ''http://localhost:3000/api/twilio/voice?retryCount=1'']\<rparr>"
proof -
  have a: "blank blankReq \<and> queryRetryCount blankReq = None"
    by (simp add: blank_def blankReq_def orElse_def trim_def)
  have d: "fst (handleGather mockEnv blankReq emptyRun) =
     \<lparr>statusCode = 200,
      body = Xml [Redirect ''http://localhost:3000/api/twilio/voice?retryCount=1'']\<rparr>"
    using gather_action_drops_retry_count [of mockEnv "[]" NaN blankReq emptyRun blankReq emptyRun] a
    by (simp add: webhookUrl_mockEnv)
  show ?thesis using a d by (intro conjI) simp_all
qed

section \<open>The status callback\<close>

lemma run_steps [simp]:
  "db (logIt l r) = db r" "calls (logIt l r) = calls r" "sent (logIt l r) = sent r"
  "logs (logIt l r) = logs r @ [l]"
  "db (called c r) = db r" "calls (called c r) = calls r @ [c]" "sent (called c r) = sent r"
  "logs (called c r) = logs r"
  "db (emit q r) = db r" "calls (emit q r) = calls r" "sent (emit q r) = sent r @ [q]"
  "logs (emit q r) = logs r"
  by (simp_all add: logIt_def called_def emit_def)

lemma tryUpdate_steps [simp]:
  "calls (tryUpdate e opn sid f l r) = calls r"
  "sent (tryUpdate e opn sid f l r) = sent r"
  "db (tryUpdate e opn sid f l r) = (if storeFails e opn then db r else findOneAndUpdate sid f (db r))"
  "logs (tryUpdate e opn sid f l r) = (if storeFails e opn then logs r @ [l] else logs r)"
  by (simp_all add: tryUpdate_def)

lemma tryCreate_steps [simp]:
  "calls (tryCreate e sid p l r) = calls r"
  "sent (tryCreate e sid p l r) = sent r"
  by (simp_all add: tryCreate_def)

lemma voicemail_not_blank: "VOICEMAIL_MESSAGE \<noteq> [] \<and> trim VOICEMAIL_MESSAGE \<noteq> []"
  by (simp add: VOICEMAIL_MESSAGE_def trim_def isWhiteSpace_def)

lemma sendSms_voicemail:
  "fst (sendSms e p VOICEMAIL_MESSAGE r) = None \<longleftrightarrow>
     validNumber p \<and> messagesCreate e (the p) VOICEMAIL_MESSAGE = None"
  "calls (snd (sendSms e p VOICEMAIL_MESSAGE r)) = calls r @ [SendSms p VOICEMAIL_MESSAGE]"
  "sent (snd (sendSms e p VOICEMAIL_MESSAGE r)) =
     sent r @ (if validNumber p then [MessagesCreate (the p) VOICEMAIL_MESSAGE] else [])"
  "db (snd (sendSms e p VOICEMAIL_MESSAGE r)) = db r"
  using voicemail_not_blank
  by (simp_all add: sendSms_def Let_def split: option.splits)

lemma smsFallback_steps:
  "calls (smsFallback e rq a r) = calls r @ [SendSms (To rq) VOICEMAIL_MESSAGE]"
  "sent (smsFallback e rq a r) =
     sent r @ (if validNumber (To rq) then [MessagesCreate (the (To rq)) VOICEMAIL_MESSAGE] else [])"
  "db (smsFallback e rq a r) =
     (if delivered e rq \<and> \<not> storeFails e UpdateSmsSent
      then findOneAndUpdate (CallSid rq) (\<lambda>d. d\<lparr>status := ''SMS Sent''\<rparr>) (db r) else db r)"
proof -
  obtain x r1 where s: "sendSms e (To rq) VOICEMAIL_MESSAGE (logIt (Console a) r) = (x, r1)"
    by (cases "sendSms e (To rq) VOICEMAIL_MESSAGE (logIt (Console a) r)")
  have x: "x = None \<longleftrightarrow> delivered e rq"
    using sendSms_voicemail(1) [of e "To rq" "logIt (Console a) r"] s by (simp add: delivered_def)
  have c: "calls r1 = calls r @ [SendSms (To rq) VOICEMAIL_MESSAGE]"
    using sendSms_voicemail(2) [of e "To rq" "logIt (Console a) r"] s by simp
  have t: "sent r1 = sent r @ (if validNumber (To rq) then [MessagesCreate (the (To rq)) VOICEMAIL_MESSAGE] else [])"
    using sendSms_voicemail(3) [of e "To rq" "logIt (Console a) r"] s by simp
  have d: "db r1 = db r"
    using sendSms_voicemail(4) [of e "To rq" "logIt (Console a) r"] s by simp
  show "calls (smsFallback e rq a r) = calls r @ [SendSms (To rq) VOICEMAIL_MESSAGE]"
    using c by (cases x) (simp_all add: smsFallback_def s)
  show "sent (smsFallback e rq a r) =
     sent r @ (if validNumber (To rq) then [MessagesCreate (the (To rq)) VOICEMAIL_MESSAGE] else [])"
    using t by (cases x) (simp_all add: smsFallback_def s)
  show "db (smsFallback e rq a r) =
     (if delivered e rq \<and> \<not> storeFails e UpdateSmsSent
      then findOneAndUpdate (CallSid rq) (\<lambda>d. d\<lparr>status := ''SMS Sent''\<rparr>) (db r) else db r)"
    using d x by (cases x) (simp_all add: smsFallback_def s)
qed

lemma fetchRecording_steps:
  "calls (fetchRecording e rq r) = calls r @ [GetRecordingUrl (CallSid rq)]"
  "sent (fetchRecording e rq r) = sent r @ [RecordingsList (CallSid rq)]"
  "db (fetchRecording e rq r) =
     (case recordingOf e rq of
        None \<Rightarrow> db r
      | Some url \<Rightarrow>
          if storeFails e UpdateRecordingUrl then db r
          else findOneAndUpdate (CallSid rq) (\<lambda>d. d\<lparr>recordingUrl := Some url\<rparr>) (db r))"
  by (simp_all add: fetchRecording_def getRecordingUrl_def recordingOf_def Let_def split: sum.splits)

lemma numLess_iff: "numLess x k \<longleftrightarrow> (\<exists>n. x = Num n \<and> n < k)"
  by (cases x) simp_all

lemma fallbackDue_code:
  "fallbackDue rq \<longleftrightarrow>
     CallStatus rq \<in> set [''no-answer'', ''busy'', ''failed'', ''canceled'', ''completed''] \<and>
     ((CallStatus rq = ''completed'' \<and>
        (AnsweredBy rq \<noteq> Some ''human'' \<or> numLess (parseInt (orElse (CallDuration rq) ''0'')) 5))
      \<or> CallStatus rq \<noteq> ''completed'')"
  unfolding fallbackDue_def numLess_iff by auto


lemma fallbackDispatch_cases:
  "fallbackDispatch e rq r = (if fallbackDue rq then smsFallback e rq
       (if CallStatus rq = ''completed'' then ''completed but likely voicemail or disconnected quickly''
        else ''sending SMS fallback'') r else r)"
  unfolding fallbackDispatch_def fallbackDue_code Let_def by (simp only: split: if_splits) auto

lemma handleStatusCallback_run:
  "snd (handleStatusCallback e rq r) =
     (let r2 = tryUpdate e UpdateStatus (CallSid rq) (\<lambda>d. d\<lparr>status := CallStatus rq\<rparr>)
                 (Logger ''WARN'' ''database_error'' [(''callSid'', CallSid rq)])
                 (logIt (Logger ''INFO'' ''call_status_update''
                    [(''callSid'', CallSid rq), (''status'', CallStatus rq)]) r);
          r3 = fallbackDispatch e rq r2
      in if CallStatus rq = ''completed'' then fetchRecording e rq r3 else r3)"
  unfolding handleStatusCallback_def Let_def by (simp only: snd_conv)

lemma status_response:
  "fst (handleStatusCallback e rq r) = \<lparr>statusCode = 200, body = Text ''Status received''\<rparr>"
  unfolding handleStatusCallback_def Let_def by (simp only: fst_conv)

lemma status_calls:
  "calls (snd (handleStatusCallback e rq r)) =
     calls r @ (if fallbackDue rq then [SendSms (To rq) VOICEMAIL_MESSAGE] else [])
             @ (if CallStatus rq = ''completed'' then [GetRecordingUrl (CallSid rq)] else [])"
  unfolding handleStatusCallback_run fallbackDispatch_cases Let_def
  by (simp add: smsFallback_steps fetchRecording_steps)

lemma status_sent:
  "sent (snd (handleStatusCallback e rq r)) =
     sent r @ (if fallbackDue rq \<and> validNumber (To rq)
               then [MessagesCreate (the (To rq)) VOICEMAIL_MESSAGE] else [])
            @ (if CallStatus rq = ''completed'' then [RecordingsList (CallSid rq)] else [])"
  unfolding handleStatusCallback_run fallbackDispatch_cases Let_def
  by (simp add: smsFallback_steps fetchRecording_steps)

lemma status_db:
  "db (snd (handleStatusCallback e rq r)) = statusStore e rq (db r)"
  unfolding handleStatusCallback_run fallbackDispatch_cases Let_def statusStore_def
  by (simp add: smsFallback_steps fetchRecording_steps split: option.splits)


lemma statusStore_idem: "statusStore e rq (statusStore e rq st) = statusStore e rq st"
proof (rule ext)
  fix x
  show "statusStore e rq (statusStore e rq st) x = statusStore e rq st x"
  proof (cases "st (CallSid rq)")
    case None
    then show ?thesis
      by (simp add: statusStore_def findOneAndUpdate_def Let_def split: option.splits)
  next
    case (Some d)
    then show ?thesis
      by (auto simp: statusStore_def findOneAndUpdate_def Let_def split: option.splits)
  qed
qed

lemma duration_ten: "parseInt (orElse (Some ''10'') ''0'') = Num 10"
  by code_simp

lemma isE164_sample: "isE164 ''+12345678900''"
  by (simp add: isE164_def isDigit_def)

lemma validNumber_sample: "validNumber (Some ''+12345678900'')"
  by (simp add: validNumber_def isE164_sample)

lemma voicemailEvent_fields:
  "CallStatus voicemailEvent = ''completed''" "AnsweredBy voicemailEvent = None"
  "To voicemailEvent = Some ''+12345678900''" "CallSid voicemailEvent = ''test-call-sid''"
  "CallDuration voicemailEvent = None"
  by (simp_all add: voicemailEvent_def blankReq_def)

lemma voicemailEvent_due: "fallbackDue voicemailEvent"
  by (simp add: fallbackDue_def voicemailEvent_fields)

lemma voicemailEvent_delivered: "delivered mockEnv voicemailEvent"
  by (simp add: delivered_def voicemailEvent_fields validNumber_sample mockEnv_def)

lemma initiatedRun_db:
  "db initiatedRun ''test-call-sid'' =
     Some \<lparr>status = ''Initiated'', patientPhoneNumber = ''+12345678900'', patientResponse = None,
           adherenceStatus = ''Unknown'', recordingUrl = None\<rparr>"
  by (simp add: initiatedRun_def initiateCall_def tryInitiate_def makeCall_def tryCreate_def
        blankReq_def emptyRun_def mockEnv_def isE164_sample validNumber_sample
        logIt_def emit_def called_def Let_def)

lemma status_after_dispatch:
  assumes "fallbackDue rq" "delivered e rq" "\<not> storeFails e UpdateSmsSent" "st (CallSid rq) = Some d"
  shows "map_option status (statusStore e rq st (CallSid rq)) = Some ''SMS Sent''"
  using assms by (simp add: statusStore_def findOneAndUpdate_def Let_def split: option.splits)

text \<open>
  C2. A status callback calls the fallback dispatch (an SMS with the voicemail text to the
  destination number) exactly when the status is no-answer, busy, failed or canceled, or
  it is completed and the call was not reported as answered by a person or lasted less
  than 5 seconds; it does so once, and the request reaches the provider when the
  destination is a valid number. A completed event not answered by a person dispatches
  once, whatever the duration, and when the dispatch succeeds and the store takes the
  update the status of the call's document is SMS Sent. A completed event answered by a
  person with duration 10 dispatches nothing and asks for the recording.
\<close>

theorem fallback_dispatch_condition:
  "calls (snd (handleStatusCallback e rq r)) =
     calls r @ (if fallbackDue rq then [SendSms (To rq) VOICEMAIL_MESSAGE] else [])
             @ (if CallStatus rq = ''completed'' then [GetRecordingUrl (CallSid rq)] else []) \<and>
   sent (snd (handleStatusCallback e rq r)) =
     sent r @ (if fallbackDue rq \<and> validNumber (To rq)
               then [MessagesCreate (the (To rq)) VOICEMAIL_MESSAGE] else [])
            @ (if CallStatus rq = ''completed'' then [RecordingsList (CallSid rq)] else []) \<and>
   (SendSms (To rq) VOICEMAIL_MESSAGE \<in> set (calls (snd (handleStatusCallback e rq emptyRun)))
      \<longleftrightarrow> fallbackDue rq) \<and>
   (CallStatus rq = ''completed'' \<and> AnsweredBy rq \<noteq> Some ''human'' \<longrightarrow>
      calls (snd (handleStatusCallback e rq emptyRun)) =
        [SendSms (To rq) VOICEMAIL_MESSAGE, GetRecordingUrl (CallSid rq)]) \<and>
   (CallStatus rq = ''completed'' \<and> AnsweredBy rq \<noteq> Some ''human'' \<and> delivered e rq \<and>
    \<not> storeFails e UpdateSmsSent \<and> db r (CallSid rq) = Some d \<longrightarrow>
      map_option status (db (snd (handleStatusCallback e rq r)) (CallSid rq)) = Some ''SMS Sent'') \<and>
   (CallStatus rq = ''completed'' \<and> AnsweredBy rq = Some ''human'' \<and> CallDuration rq = Some ''10'' \<longrightarrow>
      calls (snd (handleStatusCallback e rq emptyRun)) = [GetRecordingUrl (CallSid rq)])"
proof (intro conjI impI)
  show "calls (snd (handleStatusCallback e rq r)) =
     calls r @ (if fallbackDue rq then [SendSms (To rq) VOICEMAIL_MESSAGE] else [])
             @ (if CallStatus rq = ''completed'' then [GetRecordingUrl (CallSid rq)] else [])"
    by (rule status_calls)
  show "sent (snd (handleStatusCallback e rq r)) =
     sent r @ (if fallbackDue rq \<and> validNumber (To rq)
               then [MessagesCreate (the (To rq)) VOICEMAIL_MESSAGE] else [])
            @ (if CallStatus rq = ''completed'' then [RecordingsList (CallSid rq)] else [])"
    by (rule status_sent)
  show "SendSms (To rq) VOICEMAIL_MESSAGE \<in> set (calls (snd (handleStatusCallback e rq emptyRun)))
      \<longleftrightarrow> fallbackDue rq"
    by (simp add: status_calls emptyRun_def)
next
  assume a: "CallStatus rq = ''completed'' \<and> AnsweredBy rq \<noteq> Some ''human''"
  then have "fallbackDue rq" by (simp add: fallbackDue_def)
  with a show "calls (snd (handleStatusCallback e rq emptyRun)) =
        [SendSms (To rq) VOICEMAIL_MESSAGE, GetRecordingUrl (CallSid rq)]"
    by (simp add: status_calls emptyRun_def)
next
  assume a: "CallStatus rq = ''completed'' \<and> AnsweredBy rq \<noteq> Some ''human'' \<and> delivered e rq \<and>
    \<not> storeFails e UpdateSmsSent \<and> db r (CallSid rq) = Some d"
  then have "fallbackDue rq" by (simp add: fallbackDue_def)
  with a show "map_option status (db (snd (handleStatusCallback e rq r)) (CallSid rq)) = Some ''SMS Sent''"
    unfolding status_db by (simp add: status_after_dispatch)
next
  assume a: "CallStatus rq = ''completed'' \<and> AnsweredBy rq = Some ''human'' \<and> CallDuration rq = Some ''10''"
  then have "\<not> fallbackDue rq" by (simp add: fallbackDue_def duration_ten)
  with a show "calls (snd (handleStatusCallback e rq emptyRun)) = [GetRecordingUrl (CallSid rq)]"
    by (simp add: status_calls emptyRun_def)
qed


lemma humanEvent_fields:
  "CallStatus humanEvent = ''completed''" "AnsweredBy humanEvent = Some ''human''"
  "CallDuration humanEvent = Some ''10''" "CallSid humanEvent = ''test-call-sid''"
  by (simp_all add: humanEvent_def voicemailEvent_fields)

theorem fallback_dispatch_condition_witness:
  "CallStatus voicemailEvent = ''completed'' \<and> AnsweredBy voicemailEvent \<noteq> Some ''human'' \<and>
   delivered mockEnv voicemailEvent \<and> \<not> storeFails mockEnv UpdateSmsSent \<and>
   db initiatedRun (CallSid voicemailEvent) =
     Some \<lparr>status = ''Initiated'', patientPhoneNumber = ''+12345678900'', patientResponse = None,
           adherenceStatus = ''Unknown'', recordingUrl = None\<rparr> \<and>
   map_option status
     (db (snd (handleStatusCallback mockEnv voicemailEvent initiatedRun)) (CallSid voicemailEvent))
     = Some ''SMS Sent'' \<and>
   calls (snd (handleStatusCallback mockEnv voicemailEvent emptyRun)) =
     [SendSms (Some ''+12345678900'') VOICEMAIL_MESSAGE, GetRecordingUrl ''test-call-sid''] \<and>
   CallStatus humanEvent = ''completed'' \<and> AnsweredBy humanEvent = Some ''human'' \<and>
   CallDuration humanEvent = Some ''10'' \<and>
   calls (snd (handleStatusCallback mockEnv humanEvent emptyRun)) = [GetRecordingUrl ''test-call-sid'']"
proof -
  let ?d = "\<lparr>status = ''Initiated'', patientPhoneNumber = ''+12345678900'', patientResponse = None,
           adherenceStatus = ''Unknown'', recordingUrl = None\<rparr>"
  note v = fallback_dispatch_condition [of mockEnv voicemailEvent initiatedRun ?d]
  note v' = fallback_dispatch_condition [of mockEnv voicemailEvent emptyRun ?d]
  note h = fallback_dispatch_condition [of mockEnv humanEvent emptyRun ?d]
  have a: "CallStatus voicemailEvent = ''completed''" "AnsweredBy voicemailEvent \<noteq> Some ''human''"
    by (simp_all add: voicemailEvent_fields)
  have b: "\<not> storeFails mockEnv UpdateSmsSent" by (simp add: mockEnv_def)
  have c: "db initiatedRun (CallSid voicemailEvent) = Some ?d"
    by (simp only: voicemailEvent_fields initiatedRun_db)
  have 1: "map_option status
     (db (snd (handleStatusCallback mockEnv voicemailEvent initiatedRun)) (CallSid voicemailEvent))
     = Some ''SMS Sent''"
    by (rule v [THEN conjunct2, THEN conjunct2, THEN conjunct2, THEN conjunct2, THEN conjunct1,
          rule_format])
       (intro conjI a b c voicemailEvent_delivered)
  have "calls (snd (handleStatusCallback mockEnv voicemailEvent emptyRun)) =
     [SendSms (To voicemailEvent) VOICEMAIL_MESSAGE, GetRecordingUrl (CallSid voicemailEvent)]"
    by (rule v' [THEN conjunct2, THEN conjunct2, THEN conjunct2, THEN conjunct1, rule_format])
       (intro conjI a)
  then have 2: "calls (snd (handleStatusCallback mockEnv voicemailEvent emptyRun)) =
     [SendSms (Some ''+12345678900'') VOICEMAIL_MESSAGE, GetRecordingUrl ''test-call-sid'']"
    by (simp only: voicemailEvent_fields)
  have "calls (snd (handleStatusCallback mockEnv humanEvent emptyRun)) = [GetRecordingUrl (CallSid humanEvent)]"
    by (rule h [THEN conjunct2, THEN conjunct2, THEN conjunct2, THEN conjunct2, THEN conjunct2,
          rule_format])
       (intro conjI humanEvent_fields(1-3))
  then have 3: "calls (snd (handleStatusCallback mockEnv humanEvent emptyRun)) = [GetRecordingUrl ''test-call-sid'']"
    by (simp only: humanEvent_fields)
  show ?thesis
    using a b c 1 2 3 voicemailEvent_delivered humanEvent_fields(1-3) by (intro conjI)
qed

lemma statusStore_cong:
  assumes "storeFails e2 UpdateStatus = storeFails e1 UpdateStatus"
    and "storeFails e2 UpdateSmsSent = storeFails e1 UpdateSmsSent"
    and "storeFails e2 UpdateRecordingUrl = storeFails e1 UpdateRecordingUrl"
    and "delivered e2 rq = delivered e1 rq"
    and "recordingOf e2 rq = recordingOf e1 rq"
  shows "statusStore e2 rq st = statusStore e1 rq st"
  unfolding statusStore_def assms ..

lemma statusStore_keeps_document:
  assumes "st (CallSid rq) = Some d"
  shows "\<exists>d'. statusStore e rq st (CallSid rq) = Some d'"
  using assms by (simp add: statusStore_def findOneAndUpdate_def Let_def split: option.splits)

lemma status_after_failed_dispatch:
  assumes "\<not> storeFails e UpdateStatus" "\<not> delivered e rq" "st (CallSid rq) = Some d"
  shows "map_option status (statusStore e rq st (CallSid rq)) = Some (CallStatus rq)"
  using assms by (simp add: statusStore_def findOneAndUpdate_def Let_def split: option.splits)

text \<open>
  The store after a repeated callback depends on what the collaborators answer the second
  time: when the provider refuses the second message, the status the callback wrote first
  stays, and the document that held SMS Sent holds the reported status again.
\<close>

lemma refused_second_send:
  "map_option status
     (db (snd (handleStatusCallback (mockEnv\<lparr>messagesCreate := \<lambda>p m. Some ''refused''\<rparr>) voicemailEvent
            (snd (handleStatusCallback mockEnv voicemailEvent initiatedRun)))) (CallSid voicemailEvent))
     = Some (CallStatus voicemailEvent)"
proof -
  let ?e = "mockEnv\<lparr>messagesCreate := \<lambda>p m. Some ''refused''\<rparr>"
  have nd: "\<not> delivered ?e voicemailEvent"
    by (simp add: delivered_def)
  have sf: "\<not> storeFails ?e UpdateStatus" by (simp add: mockEnv_def)
  have "db initiatedRun (CallSid voicemailEvent) \<noteq> None"
    by (simp only: voicemailEvent_fields initiatedRun_db) simp
  then obtain d0 where "db initiatedRun (CallSid voicemailEvent) = Some d0" by blast
  then obtain d where d: "statusStore mockEnv voicemailEvent (db initiatedRun) (CallSid voicemailEvent) = Some d"
    using statusStore_keeps_document by blast
  show ?thesis
    unfolding status_db
    by (rule status_after_failed_dispatch
          [where st = "statusStore mockEnv voicemailEvent (db initiatedRun)", OF sf nd d])
qed


text \<open>
  C6. The claim that a repeated completed status callback sends no second SMS fails: the
  handler keeps no trace of an earlier dispatch, so two applications of one event give two
  messages to the provider. What holds: whatever the collaborators answer, the second
  application repeats the provider requests of the first, the fallback SMS among them.
  When the collaborators answer the second application as they did the first (the same
  store operations fail, the message has the same fate, the recording found is the same),
  the second application leaves the store as the first left it: the status is one
  overwritten field, and nothing is appended.
\<close>

theorem status_callback_twice:
  assumes "r1 = snd (handleStatusCallback e1 rq r)" and "r2 = snd (handleStatusCallback e2 rq r1)"
  shows "(\<exists>xs. sent r1 = sent r @ xs \<and> sent r2 = sent r1 @ xs \<and>
               (fallbackDue rq \<and> validNumber (To rq) \<longrightarrow>
                  MessagesCreate (the (To rq)) VOICEMAIL_MESSAGE \<in> set xs)) \<and>
         (storeFails e2 UpdateStatus = storeFails e1 UpdateStatus \<and>
          storeFails e2 UpdateSmsSent = storeFails e1 UpdateSmsSent \<and>
          storeFails e2 UpdateRecordingUrl = storeFails e1 UpdateRecordingUrl \<and>
          delivered e2 rq = delivered e1 rq \<and> recordingOf e2 rq = recordingOf e1 rq \<longrightarrow>
            db r2 = db r1)"
proof (intro conjI impI)
  let ?xs = "(if fallbackDue rq \<and> validNumber (To rq)
               then [MessagesCreate (the (To rq)) VOICEMAIL_MESSAGE] else [])
            @ (if CallStatus rq = ''completed'' then [RecordingsList (CallSid rq)] else [])"
  have 1: "sent r1 = sent r @ ?xs" unfolding assms status_sent ..
  have 2: "sent r2 = sent r1 @ ?xs" unfolding assms(2) status_sent ..
  have 3: "fallbackDue rq \<and> validNumber (To rq) \<longrightarrow>
                  MessagesCreate (the (To rq)) VOICEMAIL_MESSAGE \<in> set ?xs" by simp
  show "\<exists>xs. sent r1 = sent r @ xs \<and> sent r2 = sent r1 @ xs \<and>
               (fallbackDue rq \<and> validNumber (To rq) \<longrightarrow>
                  MessagesCreate (the (To rq)) VOICEMAIL_MESSAGE \<in> set xs)"
    using 1 2 3 by blast
next
  assume a: "storeFails e2 UpdateStatus = storeFails e1 UpdateStatus \<and>
          storeFails e2 UpdateSmsSent = storeFails e1 UpdateSmsSent \<and>
          storeFails e2 UpdateRecordingUrl = storeFails e1 UpdateRecordingUrl \<and>
          delivered e2 rq = delivered e1 rq \<and> recordingOf e2 rq = recordingOf e1 rq"
  have "statusStore e2 rq (statusStore e1 rq (db r)) = statusStore e1 rq (statusStore e1 rq (db r))"
    by (rule statusStore_cong) (simp_all only: a)
  then show "db r2 = db r1"
    unfolding assms status_db by (simp only: statusStore_idem)
qed


theorem status_callback_twice_witness:
  "fallbackDue voicemailEvent \<and> validNumber (To voicemailEvent) \<and>
   storeFails (mockEnv\<lparr>webhookUrl := ''https://example.org''\<rparr>) UpdateStatus
     = storeFails mockEnv UpdateStatus \<and>
   storeFails (mockEnv\<lparr>webhookUrl := ''https://example.org''\<rparr>) UpdateSmsSent
     = storeFails mockEnv UpdateSmsSent \<and>
   storeFails (mockEnv\<lparr>webhookUrl := ''https://example.org''\<rparr>) UpdateRecordingUrl
     = storeFails mockEnv UpdateRecordingUrl \<and>
   delivered (mockEnv\<lparr>webhookUrl := ''https://example.org''\<rparr>) voicemailEvent
     = delivered mockEnv voicemailEvent \<and>
   recordingOf (mockEnv\<lparr>webhookUrl := ''https://example.org''\<rparr>) voicemailEvent
     = recordingOf mockEnv voicemailEvent \<and>
   db (snd (handleStatusCallback (mockEnv\<lparr>webhookUrl := ''https://example.org''\<rparr>) voicemailEvent
             (snd (handleStatusCallback mockEnv voicemailEvent initiatedRun)))) =
   db (snd (handleStatusCallback mockEnv voicemailEvent initiatedRun)) \<and>
   (\<exists>xs. sent (snd (handleStatusCallback mockEnv voicemailEvent initiatedRun)) = sent initiatedRun @ xs \<and>
      sent (snd (handleStatusCallback (mockEnv\<lparr>webhookUrl := ''https://example.org''\<rparr>) voicemailEvent
             (snd (handleStatusCallback mockEnv voicemailEvent initiatedRun)))) =
      sent (snd (handleStatusCallback mockEnv voicemailEvent initiatedRun)) @ xs \<and>
      MessagesCreate (the (To voicemailEvent)) VOICEMAIL_MESSAGE \<in> set xs)"
proof -
  let ?e2 = "mockEnv\<lparr>webhookUrl := ''https://example.org''\<rparr>"
  have a: "fallbackDue voicemailEvent" by (rule voicemailEvent_due)
  have b: "validNumber (To voicemailEvent)"
    by (simp only: voicemailEvent_fields validNumber_sample)
  have c: "storeFails ?e2 UpdateStatus = storeFails mockEnv UpdateStatus"
    "storeFails ?e2 UpdateSmsSent = storeFails mockEnv UpdateSmsSent"
    "storeFails ?e2 UpdateRecordingUrl = storeFails mockEnv UpdateRecordingUrl"
    "delivered ?e2 voicemailEvent = delivered mockEnv voicemailEvent"
    "recordingOf ?e2 voicemailEvent = recordingOf mockEnv voicemailEvent"
    by (simp_all add: delivered_def recordingOf_def)
  note t = status_callback_twice [OF refl refl, of mockEnv voicemailEvent initiatedRun ?e2]
  have 1: "db (snd (handleStatusCallback ?e2 voicemailEvent
             (snd (handleStatusCallback mockEnv voicemailEvent initiatedRun)))) =
   db (snd (handleStatusCallback mockEnv voicemailEvent initiatedRun))"
    by (rule t [THEN conjunct2, rule_format]) (intro conjI c)
  have 2: "\<exists>xs. sent (snd (handleStatusCallback mockEnv voicemailEvent initiatedRun)) = sent initiatedRun @ xs \<and>
      sent (snd (handleStatusCallback ?e2 voicemailEvent
             (snd (handleStatusCallback mockEnv voicemailEvent initiatedRun)))) =
      sent (snd (handleStatusCallback mockEnv voicemailEvent initiatedRun)) @ xs \<and>
      MessagesCreate (the (To voicemailEvent)) VOICEMAIL_MESSAGE \<in> set xs"
    using t [THEN conjunct1] a b by blast
  show ?thesis using a b c 1 2 by (intro conjI)
qed

theorem status_callback_twice_counterexample:
  "sent (snd (handleStatusCallback mockEnv voicemailEvent
           (snd (handleStatusCallback mockEnv voicemailEvent emptyRun)))) =
     [MessagesCreate ''+12345678900'' VOICEMAIL_MESSAGE, RecordingsList ''test-call-sid'',
      MessagesCreate ''+12345678900'' VOICEMAIL_MESSAGE, RecordingsList ''test-call-sid'']"
  by (simp add: status_sent voicemailEvent_due voicemailEvent_fields validNumber_sample emptyRun_def)

section \<open>The gather handler, persistence, and call initiation\<close>

lemma adherenceReply_fst:
  "fst (adherenceReply e sid t r) =
     (if replyFault e = None
      then Some \<lparr>statusCode = 200, body = Xml [Say (replyOf t), Hangup]\<rparr> else None)"
proof (cases "replyFault e")
  case None
  then show ?thesis
    by (simp add: adherenceReply_def replyOf_def Let_def split: prod.splits)
next
  case (Some p)
  then show ?thesis
    by (cases p) (simp_all add: adherenceReply_def Let_def split: prod.splits)
qed

lemma adherenceReply_snd:
  "db (snd (adherenceReply e sid t r)) = db r"
  "calls (snd (adherenceReply e sid t r)) = calls r"
  "sent (snd (adherenceReply e sid t r)) = sent r"
  "set (logs r) \<subseteq> set (logs (snd (adherenceReply e sid t r)))"
  by (auto simp: adherenceReply_def Let_def split: prod.splits)

lemma gather_response:
  "fst (handleGather e rq r) =
     (if blank rq
      then \<lparr>statusCode = 200,
            body = Xml [Redirect (webhookUrl e @ ''/api/twilio/voice?retryCount=''
                         @ numToString (numAdd (parseInt (orElse (queryRetryCount rq) ''0'')) 1))]\<rparr>
      else if replyFault e = None
      then \<lparr>statusCode = 200, body = Xml [Say (replyOf (orElse (SpeechResult rq) [])), Hangup]\<rparr>
      else if fallbackFault e
      then \<lparr>statusCode = 500, body = Text ''Error processing response''\<rparr>
      else \<lparr>statusCode = 200, body = Xml [Say GENERIC_REPLY_MESSAGE, Hangup]\<rparr>)"
proof (cases "blank rq")
  case True
  then show ?thesis by (simp add: handleGather_def blank_iff Let_def)
next
  case False
  let ?t = "orElse (SpeechResult rq) []"
  let ?r2 = "tryUpdate e UpdateAnswered (CallSid rq)
                          (\<lambda>d. d\<lparr>status := ''Answered'', patientResponse := Some ?t\<rparr>)
                          (Logger ''WARN'' ''database_error'' [(''callSid'', CallSid rq)])
               (logIt (Logger ''INFO'' ''response_received''
                           [(''callSid'', CallSid rq), (''status'', ''Answered''),
                            (''patientResponse'', ?t)]) r)"
  obtain x r3 where a: "adherenceReply e (CallSid rq) ?t ?r2 = (x, r3)"
    by (cases "adherenceReply e (CallSid rq) ?t ?r2")
  have x: "x = (if replyFault e = None
      then Some \<lparr>statusCode = 200, body = Xml [Say (replyOf ?t), Hangup]\<rparr> else None)"
    using adherenceReply_fst [of e "CallSid rq" ?t ?r2] a by simp
  from False have nb: "?t \<noteq> []" "trim ?t \<noteq> []" by (simp_all add: blank_iff)
  show ?thesis
    using False nb x by (simp add: handleGather_def Let_def a)
qed

lemma gather_store:
  "db (snd (handleGather e rq r)) =
     (if blank rq \<or> storeFails e UpdateAnswered then db r
      else findOneAndUpdate (CallSid rq)
             (\<lambda>d. d\<lparr>status := ''Answered'', patientResponse := Some (orElse (SpeechResult rq) [])\<rparr>)
             (db r))"
proof (cases "blank rq")
  case True
  then show ?thesis by (simp add: handleGather_def blank_iff Let_def)
next
  case False
  let ?t = "orElse (SpeechResult rq) []"
  let ?r2 = "tryUpdate e UpdateAnswered (CallSid rq)
                          (\<lambda>d. d\<lparr>status := ''Answered'', patientResponse := Some ?t\<rparr>)
                          (Logger ''WARN'' ''database_error'' [(''callSid'', CallSid rq)])
               (logIt (Logger ''INFO'' ''response_received''
                           [(''callSid'', CallSid rq), (''status'', ''Answered''),
                            (''patientResponse'', ?t)]) r)"
  obtain x r3 where a: "adherenceReply e (CallSid rq) ?t ?r2 = (x, r3)"
    by (cases "adherenceReply e (CallSid rq) ?t ?r2")
  have d: "db r3 = db ?r2"
    using adherenceReply_snd(1) [of e "CallSid rq" ?t ?r2] a by simp
  from False have nb: "?t \<noteq> []" "trim ?t \<noteq> []" by (simp_all add: blank_iff)
  show ?thesis
    using False nb d by (cases x) (simp_all add: handleGather_def Let_def a)
qed

lemma gather_logs_warn:
  assumes "\<not> blank rq" "storeFails e UpdateAnswered"
  shows "Logger ''WARN'' ''database_error'' [(''callSid'', CallSid rq)]
           \<in> set (logs (snd (handleGather e rq r)))"
proof -
  let ?t = "orElse (SpeechResult rq) []"
  let ?r2 = "tryUpdate e UpdateAnswered (CallSid rq)
                          (\<lambda>d. d\<lparr>status := ''Answered'', patientResponse := Some ?t\<rparr>)
                          (Logger ''WARN'' ''database_error'' [(''callSid'', CallSid rq)])
               (logIt (Logger ''INFO'' ''response_received''
                           [(''callSid'', CallSid rq), (''status'', ''Answered''),
                            (''patientResponse'', ?t)]) r)"
  obtain x r3 where a: "adherenceReply e (CallSid rq) ?t ?r2 = (x, r3)"
    by (cases "adherenceReply e (CallSid rq) ?t ?r2")
  have "Logger ''WARN'' ''database_error'' [(''callSid'', CallSid rq)] \<in> set (logs ?r2)"
    using assms(2) by simp
  then have l: "Logger ''WARN'' ''database_error'' [(''callSid'', CallSid rq)] \<in> set (logs r3)"
    using adherenceReply_snd(4) [of ?r2 e "CallSid rq" ?t] a by auto
  from assms(1) have nb: "?t \<noteq> []" "trim ?t \<noteq> []" by (simp_all add: blank_iff)
  show ?thesis
    using nb l by (cases x) (simp_all add: handleGather_def Let_def a)
qed

text \<open>
  C8. For a gather result with a transcript that is not blank: when building the
  adherence reply throws, at whichever of its steps, and the generic reply is then built
  without a further exception, the handler answers with the generic acknowledgment and a
  hang-up, status 200: the exception does not reach the caller.
\<close>

theorem classification_failure_is_contained:
  assumes "\<not> blank rq" and "replyFault e = Some p" and "\<not> fallbackFault e"
  shows "fst (handleGather e rq r) =
           \<lparr>statusCode = 200, body = Xml [Say GENERIC_REPLY_MESSAGE, Hangup]\<rparr>"
  using assms by (simp add: gather_response)


theorem classification_failure_is_contained_witness:
  "\<not> blank (blankReq\<lparr>SpeechResult := Some ''yes''\<rparr>) \<and>
   replyFault (mockEnv\<lparr>replyFault := Some AtSay\<rparr>) = Some AtSay \<and>
   \<not> fallbackFault (mockEnv\<lparr>replyFault := Some AtSay\<rparr>) \<and>
   fst (handleGather (mockEnv\<lparr>replyFault := Some AtSay\<rparr>) (blankReq\<lparr>SpeechResult := Some ''yes''\<rparr>)
          emptyRun) =
     \<lparr>statusCode = 200, body = Xml [Say GENERIC_REPLY_MESSAGE, Hangup]\<rparr>"
proof -
  have a: "\<not> blank (blankReq\<lparr>SpeechResult := Some ''yes''\<rparr>)"
    by (simp add: blank_def orElse_def trim_def isWhiteSpace_def)
  have b: "replyFault (mockEnv\<lparr>replyFault := Some AtSay\<rparr>) = Some AtSay" by simp
  have c: "\<not> fallbackFault (mockEnv\<lparr>replyFault := Some AtSay\<rparr>)" by (simp add: mockEnv_def)
  show ?thesis
    using a b c classification_failure_is_contained [OF a b c, of emptyRun] by (intro conjI)
qed

lemma gather_keeps_adherence:
  "map_option adherenceStatus (db (snd (handleGather e rq r)) sid) = map_option adherenceStatus (db r sid)"
  by (simp add: gather_store findOneAndUpdate_def split: option.splits)

text \<open>
  C3. What the handler does for a gather result with a transcript that is not blank, when
  the store takes the update and the call has a document: it stores the status Answered
  and the transcript, says the reply of the classification and hangs up. The adherence
  status of the document is left as it was: the handler computes it and logs it, and never
  writes it to the store.
\<close>

theorem gather_answer_outcome:
  assumes "\<not> blank rq" and "replyFault e = None" and "\<not> storeFails e UpdateAnswered"
    and "db r (CallSid rq) = Some d" and "t = orElse (SpeechResult rq) []"
  shows "fst (handleGather e rq r) = \<lparr>statusCode = 200, body = Xml [Say (replyOf t), Hangup]\<rparr> \<and>
         db (snd (handleGather e rq r)) (CallSid rq) =
           Some (d\<lparr>status := ''Answered'', patientResponse := Some t\<rparr>) \<and>
         map_option adherenceStatus (db (snd (handleGather e rq r)) (CallSid rq)) =
           Some (adherenceStatus d)"
  using assms by (simp add: gather_response gather_store findOneAndUpdate_def)

lemma positive_sample:
  "adherenceOf ''yes I took my pills'' = ''Full''"
  "replyOf ''yes I took my pills'' = POSITIVE_RESPONSE_MESSAGE"
  by (simp_all add: adherenceOf_def replyOf_def classify_def Let_def
        negativeKeywords_def positiveKeywords_def medicationKeywords_def
        toLowerCase_simps toLowerChar_caps toLowerChar_small)

theorem gather_answer_outcome_witness:
  "\<not> blank (blankReq\<lparr>SpeechResult := Some ''yes I took my pills''\<rparr>) \<and>
   replyFault mockEnv = None \<and> \<not> storeFails mockEnv UpdateAnswered \<and>
   adherenceOf ''yes I took my pills'' = ''Full'' \<and>
   fst (handleGather mockEnv (blankReq\<lparr>SpeechResult := Some ''yes I took my pills''\<rparr>) initiatedRun) =
     \<lparr>statusCode = 200, body = Xml [Say POSITIVE_RESPONSE_MESSAGE, Hangup]\<rparr> \<and>
   db (snd (handleGather mockEnv (blankReq\<lparr>SpeechResult := Some ''yes I took my pills''\<rparr>) initiatedRun))
      ''test-call-sid'' =
     Some \<lparr>status = ''Answered'', patientPhoneNumber = ''+12345678900'',
           patientResponse = Some ''yes I took my pills'', adherenceStatus = ''Unknown'',
           recordingUrl = None\<rparr>"
proof -
  let ?rq = "blankReq\<lparr>SpeechResult := Some ''yes I took my pills''\<rparr>"
  let ?d = "\<lparr>status = ''Initiated'', patientPhoneNumber = ''+12345678900'', patientResponse = None,
           adherenceStatus = ''Unknown'', recordingUrl = None\<rparr>"
  have a: "\<not> blank ?rq"
    by (simp add: blank_def orElse_def trim_def isWhiteSpace_def)
  have b: "replyFault mockEnv = None" by (simp add: mockEnv_def)
  have c: "\<not> storeFails mockEnv UpdateAnswered" by (simp add: mockEnv_def)
  have d: "db initiatedRun (CallSid ?rq) = Some ?d"
    using initiatedRun_db by (simp add: blankReq_def)
  have t: "''yes I took my pills'' = orElse (SpeechResult ?rq) []"
    by (simp add: orElse_def)
  note g = gather_answer_outcome [OF a b c d t]
  have 1: "fst (handleGather mockEnv ?rq initiatedRun) =
     \<lparr>statusCode = 200, body = Xml [Say POSITIVE_RESPONSE_MESSAGE, Hangup]\<rparr>"
    using g [THEN conjunct1] by (simp only: positive_sample)
  have s: "CallSid ?rq = ''test-call-sid''" by (simp add: blankReq_def)
  have 2: "db (snd (handleGather mockEnv ?rq initiatedRun)) ''test-call-sid'' =
     Some \<lparr>status = ''Answered'', patientPhoneNumber = ''+12345678900'',
           patientResponse = Some ''yes I took my pills'', adherenceStatus = ''Unknown'',
           recordingUrl = None\<rparr>"
    using g [THEN conjunct2, THEN conjunct1] unfolding s by simp
  show ?thesis
    using a b c positive_sample(1) 1 2 by (intro conjI)
qed


lemma sendSms_logs: "set (logs r) \<subseteq> set (logs (snd (sendSms e p m r)))"
  by (auto simp: sendSms_def Let_def split: option.splits)

lemma smsFallback_logs: "set (logs r) \<subseteq> set (logs (smsFallback e rq a r))"
proof -
  obtain x r1 where s: "sendSms e (To rq) VOICEMAIL_MESSAGE (logIt (Console a) r) = (x, r1)"
    by (cases "sendSms e (To rq) VOICEMAIL_MESSAGE (logIt (Console a) r)")
  have "set (logs r) \<subseteq> set (logs r1)"
    using sendSms_logs [of "logIt (Console a) r" e "To rq" VOICEMAIL_MESSAGE] s by auto
  then show ?thesis
    by (cases x) (auto simp: smsFallback_def s)
qed

lemma fallbackDispatch_logs: "set (logs r) \<subseteq> set (logs (fallbackDispatch e rq r))"
  unfolding fallbackDispatch_cases using smsFallback_logs by simp

lemma fetchRecording_logs: "set (logs r) \<subseteq> set (logs (fetchRecording e rq r))"
  by (auto simp: fetchRecording_def getRecordingUrl_def Let_def split: sum.splits)

lemma logs_if: "l \<in> set (logs a) \<Longrightarrow> l \<in> set (logs b) \<Longrightarrow> l \<in> set (logs (if c then a else b))"
  by simp

lemma status_logs_warn:
  assumes "storeFails e UpdateStatus"
  shows "Logger ''WARN'' ''database_error'' [(''callSid'', CallSid rq)]
           \<in> set (logs (snd (handleStatusCallback e rq r)))"
proof -
  let ?r2 = "tryUpdate e UpdateStatus (CallSid rq) (\<lambda>d. d\<lparr>status := CallStatus rq\<rparr>)
                 (Logger ''WARN'' ''database_error'' [(''callSid'', CallSid rq)])
                 (logIt (Logger ''INFO'' ''call_status_update''
                    [(''callSid'', CallSid rq), (''status'', CallStatus rq)]) r)"
  have 2: "Logger ''WARN'' ''database_error'' [(''callSid'', CallSid rq)] \<in> set (logs ?r2)"
    using assms by simp
  have 3: "Logger ''WARN'' ''database_error'' [(''callSid'', CallSid rq)]
             \<in> set (logs (fallbackDispatch e rq ?r2))"
    using 2 fallbackDispatch_logs [of ?r2 e rq] by blast
  have 4: "Logger ''WARN'' ''database_error'' [(''callSid'', CallSid rq)]
             \<in> set (logs (fetchRecording e rq (fallbackDispatch e rq ?r2)))"
    using 3 fetchRecording_logs [of "fallbackDispatch e rq ?r2" e rq] by blast
  show ?thesis
    unfolding handleStatusCallback_run Let_def by (rule logs_if [OF 4 3])
qed

lemma smsFallback_logs_warn:
  assumes "delivered e rq" "storeFails e UpdateSmsSent"
  shows "Console ''Warning: Failed to update SMS status in database''
           \<in> set (logs (smsFallback e rq a r))"
proof -
  obtain x r1 where s: "sendSms e (To rq) VOICEMAIL_MESSAGE (logIt (Console a) r) = (x, r1)"
    by (cases "sendSms e (To rq) VOICEMAIL_MESSAGE (logIt (Console a) r)")
  have "x = None"
    using sendSms_voicemail(1) [of e "To rq" "logIt (Console a) r"] s assms(1)
    by (simp add: delivered_def)
  then show ?thesis
    using assms(2) by (simp add: smsFallback_def s)
qed

lemma fetchRecording_logs_warn:
  assumes "recordingOf e rq = Some url" "storeFails e UpdateRecordingUrl"
  shows "Console ''Warning: Failed to update recording URL in database''
           \<in> set (logs (fetchRecording e rq r))"
  using assms
  by (auto simp: fetchRecording_def getRecordingUrl_def recordingOf_def Let_def
        split: sum.splits if_splits)

lemma status_logs_sms_warn:
  assumes "fallbackDue rq" "delivered e rq" "storeFails e UpdateSmsSent"
  shows "Console ''Warning: Failed to update SMS status in database''
           \<in> set (logs (snd (handleStatusCallback e rq r)))"
proof -
  let ?r2 = "tryUpdate e UpdateStatus (CallSid rq) (\<lambda>d. d\<lparr>status := CallStatus rq\<rparr>)
                 (Logger ''WARN'' ''database_error'' [(''callSid'', CallSid rq)])
                 (logIt (Logger ''INFO'' ''call_status_update''
                    [(''callSid'', CallSid rq), (''status'', CallStatus rq)]) r)"
  have 3: "Console ''Warning: Failed to update SMS status in database''
             \<in> set (logs (fallbackDispatch e rq ?r2))"
    unfolding fallbackDispatch_cases using assms by (simp only: if_True smsFallback_logs_warn)
  have 4: "Console ''Warning: Failed to update SMS status in database''
             \<in> set (logs (fetchRecording e rq (fallbackDispatch e rq ?r2)))"
    using 3 fetchRecording_logs [of "fallbackDispatch e rq ?r2" e rq] by blast
  show ?thesis
    unfolding handleStatusCallback_run Let_def by (rule logs_if [OF 4 3])
qed

lemma status_logs_recording_warn:
  assumes "CallStatus rq = ''completed''" "recordingOf e rq = Some url"
    "storeFails e UpdateRecordingUrl"
  shows "Console ''Warning: Failed to update recording URL in database''
           \<in> set (logs (snd (handleStatusCallback e rq r)))"
proof -
  have c: "(CallStatus rq = ''completed'') = True" using assms(1) by simp
  show ?thesis
    unfolding handleStatusCallback_run Let_def c if_True
    by (rule fetchRecording_logs_warn [OF assms(2,3)])
qed

lemma initiate_create_failure:
  assumes "phoneNumber rq = Some p" "isE164 p" "callsCreate e p = Inr (sid, st)"
    "storeFails e CreateCallLog \<or> db r sid \<noteq> None"
  shows "Logger ''WARN'' ''database_error'' [(''callSid'', sid)]
           \<in> set (logs (snd (initiateCall e rq r)))"
    and "fst (initiateCall e rq r) =
           \<lparr>statusCode = 200,
            body = Json [(''success'', JBool True),
                         (''message'', JStr ''Call initiated successfully''),
                         (''callSid'', JStr sid), (''status'', JStr st)]\<rparr>"
proof -
  have ne: "p \<noteq> []" using assms(2) by (auto simp: isE164_def)
  have v: "validNumber (Some p)" using assms(2) ne by (simp add: validNumber_def)
  show "Logger ''WARN'' ''database_error'' [(''callSid'', sid)]
           \<in> set (logs (snd (initiateCall e rq r)))"
    using assms ne v
    by (auto simp: initiateCall_def tryInitiate_def makeCall_def tryCreate_def Let_def)
  show "fst (initiateCall e rq r) =
           \<lparr>statusCode = 200,
            body = Json [(''success'', JBool True),
                         (''message'', JStr ''Call initiated successfully''),
                         (''callSid'', JStr sid), (''status'', JStr st)]\<rparr>"
    using assms ne v
    by (simp add: initiateCall_def tryInitiate_def makeCall_def Let_def)
qed

lemma voice_response_free:
  "fst (handleVoiceCall (e\<lparr>storeFails := f\<rparr>) rq (r\<lparr>db := d\<rparr>)) = fst (handleVoiceCall e rq r)"
  by (simp add: handleVoiceCall_def generateTwiml_def Let_def)

lemma initiate_response_free:
  "fst (initiateCall (e\<lparr>storeFails := f\<rparr>) rq (r\<lparr>db := d\<rparr>)) = fst (initiateCall e rq r)"
  by (simp add: initiateCall_def tryInitiate_def makeCall_def Let_def
        split: option.splits sum.splits prod.splits)

text \<open>
  C9. The response of each handler is the same whichever store operations fail and
  whatever the store holds, and so are the provider requests of the status callback.
  Every store operation that fails is caught and leaves its entry in the log: the
  \<^verbatim>\<open>database_error\<close> warning for the update of the gather handler, for the status
  update of the status callback and for the creation of the document at call initiation
  (which answers with its success response all the same), and the console warning for
  the SMS Sent update and for the recording URL update.
\<close>

theorem persistence_never_changes_response:
  "fst (handleVoiceCall (e\<lparr>storeFails := f\<rparr>) rq (r\<lparr>db := d\<rparr>)) = fst (handleVoiceCall e rq r) \<and>
   fst (handleGather (e\<lparr>storeFails := f\<rparr>) rq (r\<lparr>db := d\<rparr>)) = fst (handleGather e rq r) \<and>
   fst (handleStatusCallback (e\<lparr>storeFails := f\<rparr>) rq (r\<lparr>db := d\<rparr>))
     = fst (handleStatusCallback e rq r) \<and>
   sent (snd (handleStatusCallback (e\<lparr>storeFails := f\<rparr>) rq (r\<lparr>db := d\<rparr>)))
     = sent (snd (handleStatusCallback e rq r)) \<and>
   fst (initiateCall (e\<lparr>storeFails := f\<rparr>) rq (r\<lparr>db := d\<rparr>)) = fst (initiateCall e rq r) \<and>
   (\<not> blank rq \<and> storeFails e UpdateAnswered \<longrightarrow>
      Logger ''WARN'' ''database_error'' [(''callSid'', CallSid rq)]
        \<in> set (logs (snd (handleGather e rq r)))) \<and>
   (storeFails e UpdateStatus \<longrightarrow>
      Logger ''WARN'' ''database_error'' [(''callSid'', CallSid rq)]
        \<in> set (logs (snd (handleStatusCallback e rq r)))) \<and>
   (fallbackDue rq \<and> delivered e rq \<and> storeFails e UpdateSmsSent \<longrightarrow>
      Console ''Warning: Failed to update SMS status in database''
        \<in> set (logs (snd (handleStatusCallback e rq r)))) \<and>
   (CallStatus rq = ''completed'' \<and> recordingOf e rq = Some url \<and>
    storeFails e UpdateRecordingUrl \<longrightarrow>
      Console ''Warning: Failed to update recording URL in database''
        \<in> set (logs (snd (handleStatusCallback e rq r)))) \<and>
   (phoneNumber rq = Some p \<and> isE164 p \<and> callsCreate e p = Inr (sid, st) \<and>
    (storeFails e CreateCallLog \<or> db r sid \<noteq> None) \<longrightarrow>
      Logger ''WARN'' ''database_error'' [(''callSid'', sid)]
        \<in> set (logs (snd (initiateCall e rq r))) \<and>
      fst (initiateCall e rq r) =
        \<lparr>statusCode = 200,
         body = Json [(''success'', JBool True),
                      (''message'', JStr ''Call initiated successfully''),
                      (''callSid'', JStr sid), (''status'', JStr st)]\<rparr>)"
proof (intro conjI impI)
  show "fst (handleVoiceCall (e\<lparr>storeFails := f\<rparr>) rq (r\<lparr>db := d\<rparr>)) = fst (handleVoiceCall e rq r)"
    by (rule voice_response_free)
  show "fst (handleGather (e\<lparr>storeFails := f\<rparr>) rq (r\<lparr>db := d\<rparr>)) = fst (handleGather e rq r)"
    by (simp add: gather_response)
  show "fst (handleStatusCallback (e\<lparr>storeFails := f\<rparr>) rq (r\<lparr>db := d\<rparr>))
     = fst (handleStatusCallback e rq r)"
    by (simp only: status_response)
  show "sent (snd (handleStatusCallback (e\<lparr>storeFails := f\<rparr>) rq (r\<lparr>db := d\<rparr>)))
     = sent (snd (handleStatusCallback e rq r))"
    by (simp add: status_sent)
  show "fst (initiateCall (e\<lparr>storeFails := f\<rparr>) rq (r\<lparr>db := d\<rparr>)) = fst (initiateCall e rq r)"
    by (rule initiate_response_free)
next
  assume "\<not> blank rq \<and> storeFails e UpdateAnswered"
  then show "Logger ''WARN'' ''database_error'' [(''callSid'', CallSid rq)]
        \<in> set (logs (snd (handleGather e rq r)))"
    by (simp add: gather_logs_warn)
next
  assume "storeFails e UpdateStatus"
  then show "Logger ''WARN'' ''database_error'' [(''callSid'', CallSid rq)]
        \<in> set (logs (snd (handleStatusCallback e rq r)))"
    by (rule status_logs_warn)
next
  assume "fallbackDue rq \<and> delivered e rq \<and> storeFails e UpdateSmsSent"
  then show "Console ''Warning: Failed to update SMS status in database''
        \<in> set (logs (snd (handleStatusCallback e rq r)))"
    by (simp only: status_logs_sms_warn)
next
  assume a: "CallStatus rq = ''completed'' \<and> recordingOf e rq = Some url \<and>
    storeFails e UpdateRecordingUrl"
  show "Console ''Warning: Failed to update recording URL in database''
        \<in> set (logs (snd (handleStatusCallback e rq r)))"
    by (rule status_logs_recording_warn [OF a [THEN conjunct1] a [THEN conjunct2, THEN conjunct1]
          a [THEN conjunct2, THEN conjunct2]])
next
  assume a: "phoneNumber rq = Some p \<and> isE164 p \<and> callsCreate e p = Inr (sid, st) \<and>
    (storeFails e CreateCallLog \<or> db r sid \<noteq> None)"
  show "Logger ''WARN'' ''database_error'' [(''callSid'', sid)]
        \<in> set (logs (snd (initiateCall e rq r)))"
    by (rule initiate_create_failure(1) [OF a [THEN conjunct1] a [THEN conjunct2, THEN conjunct1]
          a [THEN conjunct2, THEN conjunct2, THEN conjunct1]
          a [THEN conjunct2, THEN conjunct2, THEN conjunct2]])
next
  assume a: "phoneNumber rq = Some p \<and> isE164 p \<and> callsCreate e p = Inr (sid, st) \<and>
    (storeFails e CreateCallLog \<or> db r sid \<noteq> None)"
  show "fst (initiateCall e rq r) =
        \<lparr>statusCode = 200,
         body = Json [(''success'', JBool True),
                      (''message'', JStr ''Call initiated successfully''),
                      (''callSid'', JStr sid), (''status'', JStr st)]\<rparr>"
    by (rule initiate_create_failure(2) [OF a [THEN conjunct1] a [THEN conjunct2, THEN conjunct1]
          a [THEN conjunct2, THEN conjunct2, THEN conjunct1]
          a [THEN conjunct2, THEN conjunct2, THEN conjunct2]])
qed

lemma isE164_specE164: "isE164 p \<Longrightarrow> specE164 p"
  by (auto simp: isE164_def specE164_def split: list.splits)

text \<open>
  C7. A call initiation whose phone number is missing or is not in E.164 format (the
  specification's format, which the source's pattern is within) makes no call to the
  telephony service and no provider request. The error thrown is a validation error,
  which the error middleware maps to status 400, but the handler's own catch answers
  with status 500.
\<close>

theorem invalid_number_rejected_as_500:
  assumes "phoneNumber rq = None \<or> (\<exists>p. phoneNumber rq = Some p \<and> \<not> specE164 p)"
  shows "statusCode (fst (initiateCall e rq r)) = 500 \<and>
         calls (snd (initiateCall e rq r)) = calls r \<and>
         sent (snd (initiateCall e rq r)) = sent r \<and>
         (\<exists>err. fst (tryInitiate e rq r) = Inl err \<and> exnStatusCode err = 400)"
proof -
  have v: "ErrorStatusCodes ''VALIDATION_ERROR'' = Some 400"
    by (simp add: ErrorStatusCodes_def)
  from assms show ?thesis
  proof
    assume "phoneNumber rq = None"
    then show ?thesis by (simp add: initiateCall_def tryInitiate_def v)
  next
    assume "\<exists>p. phoneNumber rq = Some p \<and> \<not> specE164 p"
    then obtain p where p: "phoneNumber rq = Some p" "\<not> specE164 p" by blast
    then have "\<not> isE164 p" using isE164_specE164 by blast
    with p show ?thesis by (simp add: initiateCall_def tryInitiate_def v)
  qed
qed


theorem invalid_number_rejected_as_500_witness:
  "phoneNumber (blankReq\<lparr>phoneNumber := Some ''12345''\<rparr>) = Some ''12345'' \<and>
   \<not> specE164 ''12345'' \<and>
   statusCode (fst (initiateCall mockEnv (blankReq\<lparr>phoneNumber := Some ''12345''\<rparr>) emptyRun)) = 500 \<and>
   sent (snd (initiateCall mockEnv (blankReq\<lparr>phoneNumber := Some ''12345''\<rparr>) emptyRun)) = [] \<and>
   fst (tryInitiate mockEnv (blankReq\<lparr>phoneNumber := Some ''12345''\<rparr>) emptyRun) =
     Inl (AppError ''Phone number must be in E.164 format (e.g., +12345678900)'' ''VALIDATION_ERROR'') \<and>
   exnStatusCode (AppError ''Phone number must be in E.164 format (e.g., +12345678900)''
                    ''VALIDATION_ERROR'') = 400"
proof -
  let ?rq = "blankReq\<lparr>phoneNumber := Some ''12345''\<rparr>"
  have a: "phoneNumber ?rq = Some ''12345''" by simp
  have b: "\<not> specE164 ''12345''" by (simp add: specE164_def)
  have h: "phoneNumber ?rq = None \<or> (\<exists>p. phoneNumber ?rq = Some p \<and> \<not> specE164 p)"
    using a b by blast
  note t = invalid_number_rejected_as_500 [OF h, of mockEnv emptyRun]
  have 1: "statusCode (fst (initiateCall mockEnv ?rq emptyRun)) = 500"
    by (rule t [THEN conjunct1])
  have "sent (snd (initiateCall mockEnv ?rq emptyRun)) = sent emptyRun"
    by (rule t [THEN conjunct2, THEN conjunct2, THEN conjunct1])
  then have 2: "sent (snd (initiateCall mockEnv ?rq emptyRun)) = []"
    by (simp add: emptyRun_def)
  have 3: "fst (tryInitiate mockEnv ?rq emptyRun) =
     Inl (AppError ''Phone number must be in E.164 format (e.g., +12345678900)'' ''VALIDATION_ERROR'')"
    by (simp add: tryInitiate_def isE164_def)
  have 4: "exnStatusCode (AppError ''Phone number must be in E.164 format (e.g., +12345678900)''
                    ''VALIDATION_ERROR'') = 400"
    by (simp add: ErrorStatusCodes_def)
  show ?thesis using a b 1 2 3 4 by (intro conjI)
qed

theorem persistence_never_changes_response_witness:
  "fst (handleGather (mockEnv\<lparr>storeFails := \<lambda>opn. True\<rparr>)
         (blankReq\<lparr>SpeechResult := Some ''yes''\<rparr>) (initiatedRun\<lparr>db := Map.empty\<rparr>))
     = fst (handleGather mockEnv (blankReq\<lparr>SpeechResult := Some ''yes''\<rparr>) initiatedRun) \<and>
   sent (snd (handleStatusCallback (mockEnv\<lparr>storeFails := \<lambda>opn. True\<rparr>) voicemailEvent
                (initiatedRun\<lparr>db := Map.empty\<rparr>)))
     = sent (snd (handleStatusCallback mockEnv voicemailEvent initiatedRun)) \<and>
   \<not> blank (blankReq\<lparr>SpeechResult := Some ''yes''\<rparr>) \<and>
   storeFails (mockEnv\<lparr>storeFails := \<lambda>opn. True\<rparr>) UpdateAnswered \<and>
   Logger ''WARN'' ''database_error'' [(''callSid'', ''test-call-sid'')]
     \<in> set (logs (snd (handleGather (mockEnv\<lparr>storeFails := \<lambda>opn. True\<rparr>)
                          (blankReq\<lparr>SpeechResult := Some ''yes''\<rparr>) initiatedRun))) \<and>
   storeFails (mockEnv\<lparr>storeFails := \<lambda>opn. True\<rparr>) UpdateStatus \<and>
   Logger ''WARN'' ''database_error'' [(''callSid'', ''test-call-sid'')]
     \<in> set (logs (snd (handleStatusCallback (mockEnv\<lparr>storeFails := \<lambda>opn. True\<rparr>)
                          voicemailEvent initiatedRun))) \<and>
   fallbackDue voicemailEvent \<and>
   delivered (mockEnv\<lparr>storeFails := \<lambda>opn. True\<rparr>) voicemailEvent \<and>
   storeFails (mockEnv\<lparr>storeFails := \<lambda>opn. True\<rparr>) UpdateSmsSent \<and>
   Console ''Warning: Failed to update SMS status in database''
     \<in> set (logs (snd (handleStatusCallback (mockEnv\<lparr>storeFails := \<lambda>opn. True\<rparr>)
                          voicemailEvent initiatedRun))) \<and>
   CallStatus voicemailEvent = ''completed'' \<and>
   recordingOf (mockEnv\<lparr>storeFails := \<lambda>opn. True\<rparr>) voicemailEvent
     = Some ''https://api.twilio.com/recordings/test-recording-sid'' \<and>
   storeFails (mockEnv\<lparr>storeFails := \<lambda>opn. True\<rparr>) UpdateRecordingUrl \<and>
   Console ''Warning: Failed to update recording URL in database''
     \<in> set (logs (snd (handleStatusCallback (mockEnv\<lparr>storeFails := \<lambda>opn. True\<rparr>)
                          voicemailEvent initiatedRun))) \<and>
   phoneNumber (blankReq\<lparr>phoneNumber := Some ''+12345678900''\<rparr>) = Some ''+12345678900'' \<and>
   isE164 ''+12345678900'' \<and>
   callsCreate (mockEnv\<lparr>storeFails := \<lambda>opn. True\<rparr>) ''+12345678900''
     = Inr (''test-call-sid'', ''queued'') \<and>
   storeFails (mockEnv\<lparr>storeFails := \<lambda>opn. True\<rparr>) CreateCallLog \<and>
   Logger ''WARN'' ''database_error'' [(''callSid'', ''test-call-sid'')]
     \<in> set (logs (snd (initiateCall (mockEnv\<lparr>storeFails := \<lambda>opn. True\<rparr>)
                          (blankReq\<lparr>phoneNumber := Some ''+12345678900''\<rparr>) emptyRun))) \<and>
   fst (initiateCall (mockEnv\<lparr>storeFails := \<lambda>opn. True\<rparr>)
          (blankReq\<lparr>phoneNumber := Some ''+12345678900''\<rparr>) emptyRun) =
     \<lparr>statusCode = 200,
      body = Json [(''success'', JBool True),
                   (''message'', JStr ''Call initiated successfully''),
                   (''callSid'', JStr ''test-call-sid''), (''status'', JStr ''queued'')]\<rparr>"
proof -
  let ?e = "mockEnv\<lparr>storeFails := \<lambda>opn. True\<rparr>"
  let ?g = "blankReq\<lparr>SpeechResult := Some ''yes''\<rparr>"
  let ?c = "blankReq\<lparr>phoneNumber := Some ''+12345678900''\<rparr>"
  let ?url = "''https://api.twilio.com/recordings/test-recording-sid''"
  let ?st = "''queued''"
  note a = persistence_never_changes_response
             [where e = mockEnv and f = "\<lambda>opn. True" and rq = ?g and r = initiatedRun
                and d = Map.empty]
  note b = persistence_never_changes_response
             [where e = mockEnv and f = "\<lambda>opn. True" and rq = voicemailEvent
                and r = initiatedRun and d = Map.empty]
  note c = persistence_never_changes_response
             [where e = ?e and f = "\<lambda>opn. True" and rq = ?g and r = initiatedRun and d = Map.empty]
  note d = persistence_never_changes_response
             [where e = ?e and f = "\<lambda>opn. True" and rq = voicemailEvent and r = initiatedRun
                and d = Map.empty and url = ?url]
  note i = persistence_never_changes_response
             [where e = ?e and f = "\<lambda>opn. True" and rq = ?c and r = emptyRun
                and d = Map.empty and p = "''+12345678900''" and sid = "''test-call-sid''"
                and st = ?st]
  have nb: "\<not> blank ?g"
    by (simp add: blank_def orElse_def trim_def isWhiteSpace_def)
  have f: "storeFails ?e UpdateAnswered" "storeFails ?e UpdateStatus"
    "storeFails ?e UpdateSmsSent" "storeFails ?e UpdateRecordingUrl" "storeFails ?e CreateCallLog"
    by simp_all
  have sg: "CallSid ?g = ''test-call-sid''" by (simp add: blankReq_def)
  have dl: "delivered ?e voicemailEvent"
    by (simp add: delivered_def voicemailEvent_fields validNumber_sample mockEnv_def)
  have ro: "recordingOf ?e voicemailEvent = Some ?url"
    by (simp add: recordingOf_def voicemailEvent_fields mockEnv_def)
  have cs: "CallStatus voicemailEvent = ''completed''" by (rule voicemailEvent_fields(1))
  have pn: "phoneNumber ?c = Some ''+12345678900''" by simp
  have cc: "callsCreate ?e ''+12345678900'' = Inr (''test-call-sid'', ?st)"
    by (simp add: mockEnv_def)
  have fd: "storeFails ?e CreateCallLog \<or> db emptyRun ''test-call-sid'' \<noteq> None"
    by (rule disjI1) (rule f(5))
  have 1: "Logger ''WARN'' ''database_error'' [(''callSid'', CallSid ?g)]
     \<in> set (logs (snd (handleGather ?e ?g initiatedRun)))"
    by (rule c [THEN conjunct2, THEN conjunct2, THEN conjunct2, THEN conjunct2, THEN conjunct2,
                THEN conjunct1, rule_format])
       (intro conjI nb f(1))
  have 2: "Logger ''WARN'' ''database_error'' [(''callSid'', CallSid voicemailEvent)]
     \<in> set (logs (snd (handleStatusCallback ?e voicemailEvent initiatedRun)))"
    by (rule d [THEN conjunct2, THEN conjunct2, THEN conjunct2, THEN conjunct2, THEN conjunct2,
                THEN conjunct2, THEN conjunct1, rule_format])
       (rule f(2))
  have 3: "Console ''Warning: Failed to update SMS status in database''
     \<in> set (logs (snd (handleStatusCallback ?e voicemailEvent initiatedRun)))"
    by (rule d [THEN conjunct2, THEN conjunct2, THEN conjunct2, THEN conjunct2, THEN conjunct2,
                THEN conjunct2, THEN conjunct2, THEN conjunct1, rule_format])
       (intro conjI voicemailEvent_due dl f(3))
  have 4: "Console ''Warning: Failed to update recording URL in database''
     \<in> set (logs (snd (handleStatusCallback ?e voicemailEvent initiatedRun)))"
    by (rule d [THEN conjunct2, THEN conjunct2, THEN conjunct2, THEN conjunct2, THEN conjunct2,
                THEN conjunct2, THEN conjunct2, THEN conjunct2, THEN conjunct1, rule_format])
       (intro conjI cs ro f(4))
  note j = i [THEN conjunct2, THEN conjunct2, THEN conjunct2, THEN conjunct2, THEN conjunct2,
                THEN conjunct2, THEN conjunct2, THEN conjunct2, THEN conjunct2, THEN mp,
                OF conjI [OF pn conjI [OF isE164_sample conjI [OF cc fd]]]]
  show ?thesis
    using a [THEN conjunct2, THEN conjunct1]
      b [THEN conjunct2, THEN conjunct2, THEN conjunct2, THEN conjunct1]
      nb f(1) 1 [unfolded sg] f(2) 2 [unfolded voicemailEvent_fields]
      voicemailEvent_due dl f(3) 3 cs ro f(4) 4 pn isE164_sample cc f(5)
      j [THEN conjunct1] j [THEN conjunct2]
    by (intro conjI)
qed

end
